theory Spec2Isabelle
  imports Complex_Main "HOL-Library.AList"
begin

section \<open>Exceptions\<close>

text \<open>
  The C++ sources signal failure by throwing. Almost every throw is a
  \<^verbatim>\<open>std::runtime_error\<close> carrying a message; \<^verbatim>\<open>std::get\<close> on the wrong
  alternative of a \<^verbatim>\<open>Value\<close> throws \<^verbatim>\<open>std::bad_variant_access\<close>, which is
  not a \<^verbatim>\<open>runtime_error\<close>; indexing a \<^verbatim>\<open>std::vector\<close> out of range is
  undefined behaviour, as is a conversion of a double to \<^verbatim>\<open>int\<close> that does not fit or a call
  through a null pointer; all of these are kept apart as \<open>UndefinedBehaviour\<close>.
\<close>

datatype exn = RuntimeError string | BadVariantAccess | UndefinedBehaviour

section \<open>Tokens and the string-literal lexer\<close>

text \<open>
  \<^verbatim>\<open>enum class TokenType\<close> of \<^verbatim>\<open>Token.h\<close> lists some eighty enumerators. An
  enumerator is its position in that list; the three that open the list are named here,
  the string lexer produces only \<open>STRING\<close>.
\<close>

type_synonym TokenType = nat

definition IDENTIFIER :: TokenType where "IDENTIFIER = 0"
definition NUMBER :: TokenType where "NUMBER = 1"
definition STRING :: TokenType where "STRING = 2"

record Token =
  tok_type :: TokenType
  tok_text :: string
  tok_line :: int
  tok_col :: int

text \<open>The lexer's fields: the whole input, the read position, and the line and column counters.\<close>

record Lexer =
  input :: string
  pos :: nat
  line :: int
  col :: int

text \<open>
  \<^verbatim>\<open>peekChar\<close> and \<^verbatim>\<open>getChar\<close> are declared in the lexer's header, which is not
  among the sources. They are modelled from how \<^verbatim>\<open>scanString\<close> and its comments use
  them: \<^verbatim>\<open>peekChar\<close> is the character at the read position, \<^verbatim>\<open>getChar\<close> returns
  it and moves the position and the column by one ("We already advanced pos by 1, col by
  1"). At the end of the input both yield the NUL character and nothing moves.
\<close>

definition peekChar :: "Lexer \<Rightarrow> char" where
  "peekChar lx = (if pos lx < length (input lx) then input lx ! pos lx else CHR 0x00)"

definition getChar :: "Lexer \<Rightarrow> char \<times> Lexer" where
  "getChar lx =
     (if pos lx < length (input lx)
      then (input lx ! pos lx, lx\<lparr>pos := pos lx + 1, col := col lx + 1\<rparr>)
      else (CHR 0x00, lx))"

text \<open>
  The \<^verbatim>\<open>while (true)\<close> loop of \<^verbatim>\<open>Lexer::scanString\<close>. \<open>q\<close> is \<^verbatim>\<open>quoteChar\<close>,
  \<open>val\<close> the unescaped text collected so far. Every \<^verbatim>\<open>getChar\<close> is followed by the
  source's own extra \<^verbatim>\<open>col++\<close> (or \<^verbatim>\<open>col += 2\<close>).
\<close>

function scanStringLoop :: "char \<Rightarrow> string \<Rightarrow> Lexer \<Rightarrow> exn + (string \<times> Lexer)" where
  "scanStringLoop q val lx =
     (if pos lx \<ge> length (input lx) then Inl (RuntimeError ''Unterminated string literal'')
      else
        let c = peekChar lx in
        if c = q then
          (if pos lx + 1 < length (input lx) \<and> input lx ! (pos lx + 1) = q then
             let lx1 = snd (getChar lx);
                 lx2 = snd (getChar lx1);
                 lx3 = lx2\<lparr>col := col lx2 + 2\<rparr>
             in scanStringLoop q (val @ [q]) lx3
           else
             let lx1 = snd (getChar lx);
                 lx2 = lx1\<lparr>col := col lx1 + 1\<rparr>
             in Inr (val, lx2))
        else
          let lx1 = snd (getChar lx);
              lx2 = lx1\<lparr>col := col lx1 + 1\<rparr>
          in scanStringLoop q (val @ [c]) lx2)"
  by pat_completeness auto
termination
  by (relation "measure (\<lambda>(q, val, lx). length (input lx) - pos lx)")
     (auto simp: getChar_def)

text \<open>
  \<^verbatim>\<open>Lexer::scanString\<close>: the token takes the line and column of the opening quote,
  which the first \<^verbatim>\<open>getChar\<close> consumes.
\<close>

definition scanString :: "Lexer \<Rightarrow> exn + (Token \<times> Lexer)" where
  "scanString lx =
     (let (quoteChar, lx1) = getChar lx in
      case scanStringLoop quoteChar [] lx1 of
        Inl e \<Rightarrow> Inl e
      | Inr (val, lx2) \<Rightarrow>
          Inr (\<lparr>tok_type = STRING, tok_text = val, tok_line = line lx, tok_col = col lx\<rparr>, lx2))"

text \<open>
  The body of a literal as it is written in the source text: every occurrence of the
  delimiter \<open>q\<close> in the text \<open>s\<close> is doubled, every other character stands for itself.
\<close>

fun escapeQuote :: "char \<Rightarrow> string \<Rightarrow> string" where
  "escapeQuote q [] = []"
| "escapeQuote q (c # cs) = (if c = q then [q, q] else [c]) @ escapeQuote q cs"

section \<open>Values\<close>

text \<open>
  A C++ \<^verbatim>\<open>double\<close> is modelled as a real number or the one not-a-number \<open>NaN\<close>, which
  the interpreter uses for a missing numeric value (\<^verbatim>\<open>std::nan("")\<close>). Arithmetic on numbers is
  exact: rounding, overflow to an infinity and the sign of zero are outside the model.
  Where a property below relies on the result of an addition or a division, the numbers
  are whole numbers of at most \<open>2 ^ 53\<close> (and the quotient is whole), on which the arithmetic
  of a \<^verbatim>\<open>double\<close> is exact as well.
  \<open>NaN\<close> behaves as IEEE 754 says: it propagates through arithmetic, every ordered
  comparison and \<^verbatim>\<open>==\<close> with it is false, \<^verbatim>\<open>!=\<close> with it is true.
\<close>

datatype double = Fin real | NaN

fun arith :: "(real \<Rightarrow> real \<Rightarrow> real) \<Rightarrow> double \<Rightarrow> double \<Rightarrow> double" where
  "arith f (Fin a) (Fin b) = Fin (f a b)"
| "arith f _ _ = NaN"

fun compare :: "(real \<Rightarrow> real \<Rightarrow> bool) \<Rightarrow> double \<Rightarrow> double \<Rightarrow> bool" where
  "compare p (Fin a) (Fin b) = p a b"
| "compare p _ _ = False"

fun arith1 :: "(real \<Rightarrow> real) \<Rightarrow> double \<Rightarrow> double" where
  "arith1 f (Fin a) = Fin (f a)"
| "arith1 f NaN = NaN"

definition dadd :: "double \<Rightarrow> double \<Rightarrow> double" where "dadd = arith (+)"
definition dsub :: "double \<Rightarrow> double \<Rightarrow> double" where "dsub = arith (-)"
definition dmul :: "double \<Rightarrow> double \<Rightarrow> double" where "dmul = arith (*)"
text \<open>Division is only ever reached with a divisor that is not zero.\<close>
definition ddiv :: "double \<Rightarrow> double \<Rightarrow> double" where "ddiv = arith (/)"
definition dlt :: "double \<Rightarrow> double \<Rightarrow> bool" where "dlt = compare (<)"
definition dle :: "double \<Rightarrow> double \<Rightarrow> bool" where "dle = compare (\<le>)"
definition dgt :: "double \<Rightarrow> double \<Rightarrow> bool" where "dgt = compare (>)"
definition dge :: "double \<Rightarrow> double \<Rightarrow> bool" where "dge = compare (\<ge>)"
definition deq :: "double \<Rightarrow> double \<Rightarrow> bool" where "deq = compare (=)"
definition dne :: "double \<Rightarrow> double \<Rightarrow> bool" where "dne a b = (\<not> deq a b)"

text \<open>
  \<^verbatim>\<open>static_cast<int>\<close> of a double truncates toward zero; on \<open>NaN\<close> or a value outside the
  range of a 32-bit \<^verbatim>\<open>int\<close> the conversion is undefined (\<open>None\<close>).
\<close>

definition truncate :: "real \<Rightarrow> int" where
  "truncate x = (if x \<ge> 0 then \<lfloor>x\<rfloor> else \<lceil>x\<rceil>)"

fun static_cast_int :: "double \<Rightarrow> int option" where
  "static_cast_int NaN = None"
| "static_cast_int (Fin x) =
     (if - 2147483648 \<le> truncate x \<and> truncate x \<le> 2147483647 then Some (truncate x) else None)"

text \<open>\<^verbatim>\<open>using Value = std::variant<double, std::string>\<close>; alternative 0 is the double.\<close>

datatype Value = VDouble double | VString string

text \<open>A default-constructed \<^verbatim>\<open>Value\<close> holds the first alternative, value-initialised.\<close>

definition defaultValue :: Value where
  "defaultValue = VDouble (Fin 0)"

fun holds_double :: "Value \<Rightarrow> bool" where
  "holds_double (VDouble _) = True"
| "holds_double (VString _) = False"

text \<open>\<^verbatim>\<open>std::get<T>\<close> throws \<^verbatim>\<open>std::bad_variant_access\<close> on the other alternative.\<close>

fun get_string :: "Value \<Rightarrow> exn + string" where
  "get_string (VString s) = Inr s"
| "get_string (VDouble _) = Inl BadVariantAccess"

section \<open>Syntax trees\<close>

text \<open>
  The node classes are declared in a header that is not among the sources; their fields
  are taken from the way \<^verbatim>\<open>Interpreter.cpp\<close> reads them. Expression nodes and statement
  nodes are kept in two types. \<open>OtherExprNode\<close> stands for a node of any class that
  \<^verbatim>\<open>evaluate\<close> does not know. \<^verbatim>\<open>ProcSortNode\<close> is a \<^verbatim>\<open>ProcNode\<close> (\<^verbatim>\<open>executeProc\<close> casts to it);
  \<^verbatim>\<open>ProcMeansNode\<close> is taken to be one as well and carries its \<^verbatim>\<open>procName\<close>.
\<close>

datatype expr =
    NumberNode double
  | StringNode string
  | VariableNode string
  | FunctionCallNode string "expr list"
  | ArrayElementNode string expr
  | BinaryOpNode string expr expr
  | OtherExprNode

datatype ASTNode =
    DataStepNode string string "ASTNode list"
  | OptionsNode "(string \<times> string) list"
  | LibnameNode string string
  | TitleNode string
  | ProcNode string string
  | ProcSortNode string string "string list" "expr option" bool bool
  | ProcMeansNode string string "string list"
  | IfElseIfNode expr "ASTNode list" "(expr \<times> ASTNode list) list" "ASTNode list"
  | ArrayNode string int "string list"
  | MergeStatementNode "string list"
  | ByStatementNode "string list"
  | DoLoopNode "expr option" bool ASTNode
  | EndNode
  | AssignmentNode string expr
  | IfThenNode expr "ASTNode list"
  | OutputNode
  | DropNode "string list"
  | KeepNode "string list"
  | RetainNode "string list"
  | DoNode string expr expr "expr option" "ASTNode list"
  | BlockNode "ASTNode list"

section \<open>Rows, datasets and the interpreter's state\<close>

text \<open>
  \<^verbatim>\<open>Row::columns\<close> is a map from column name to value that the code reads by key
  (\<^verbatim>\<open>find\<close>), writes by key (\<^verbatim>\<open>operator[]\<close>), erases from, and iterates. It is modelled
  as an association list whose order is the order in which the container is iterated;
  nothing proved below depends on which order that is.
\<close>

type_synonym Row = "(string \<times> Value) list"

definition columns_find :: "Row \<Rightarrow> string \<Rightarrow> Value option" where
  "columns_find r k = map_of r k"

definition columns_assign :: "string \<Rightarrow> Value \<Rightarrow> Row \<Rightarrow> Row" where
  "columns_assign k v r = AList.update k v r"

definition columns_erase :: "string \<Rightarrow> Row \<Rightarrow> Row" where
  "columns_erase k r = AList.delete k r"

text \<open>Reading through \<^verbatim>\<open>operator[]\<close> inserts a default value under a key that is absent.\<close>

definition columns_subscript :: "string \<Rightarrow> Row \<Rightarrow> Value \<times> Row" where
  "columns_subscript k r =
     (case columns_find r k of
        Some v \<Rightarrow> (v, r)
      | None \<Rightarrow> (defaultValue, columns_assign k defaultValue r))"

text \<open>
  The number \<^verbatim>\<open>executeMerge\<close> reads for a BY variable of a row: the variable's value when
  it holds a double, zero when the variable is absent or holds a string.
\<close>

definition byValue :: "Row \<Rightarrow> string \<Rightarrow> double" where
  "byValue row var =
     (case columns_find row var of Some (VDouble d) \<Rightarrow> d | _ \<Rightarrow> Fin 0)"

record DataSet =
  name :: string
  rows :: "Row list"
  columnOrder :: "string list"

text \<open>
  A line handed to one of the two loggers: its level, its format string and the
  arguments, which are kept as they are passed (how a number is printed is not modelled).
  Of the log, the warnings and errors are modelled; the \<^verbatim>\<open>info\<close> lines, which only trace
  the run, are left out. Of the listing, the lines of TITLE, PROC PRINT and PROC MEANS are
  modelled; the printout of the output dataset at the end of a DATA step is left out.
\<close>

datatype level = LInfo | LWarn | LError

datatype logarg = S string | D double

type_synonym logline = "level \<times> string \<times> logarg list"

text \<open>
  The state of the interpreter: the fields of the data environment \<^verbatim>\<open>env\<close> that the code
  touches (\<open>dataSets\<close>, \<open>variables\<close>, \<open>currentRow\<close>, \<open>title\<close>, \<open>options\<close>, \<open>librefs\<close>), the
  interpreter's own members (\<open>arrays\<close>, \<open>byVariables\<close>, \<open>loopStack\<close>, \<open>retainVars\<close>) and
  the two loggers. A dataset is shared between the environment and the code that holds
  a pointer to it, so the environment's map from full name to dataset is the store and
  a pointer is the full name. \<open>currentDataSet\<close> is the dataset \<^verbatim>\<open>env.getCurrentDataSet()\<close>
  answers with. An entry of \<open>loopStack\<close> is the fields of the \<^verbatim>\<open>DoLoopNode\<close> and its
  iteration count.
\<close>

record interp =
  dataSets :: "string \<rightharpoonup> DataSet"
  variables :: "string \<rightharpoonup> Value"
  currentRow :: Row
  title :: string
  options :: "string \<rightharpoonup> string"
  librefs :: "string \<rightharpoonup> string"
  currentDataSet :: string
  arrays :: "string \<rightharpoonup> string list"
  byVariables :: "string list"
  loopStack :: "((expr option \<times> bool \<times> ASTNode) \<times> nat) list"
  retainVars :: "string list"
  logLogger :: "logline list"
  lstLogger :: "logline list"

text \<open>
  What the interpreter calls and the sources do not contain: \<^verbatim>\<open>std::stod\<close> of the C++
  library (\<open>None\<close> when it throws), \<^verbatim>\<open>std::to_string\<close> on a double, the
  floating-point functions \<^verbatim>\<open>std::sqrt\<close>, \<^verbatim>\<open>std::log\<close>, \<^verbatim>\<open>std::exp\<close> and \<^verbatim>\<open>std::log10\<close>,
  \<^verbatim>\<open>Sorter::sortDataset\<close> as a function on the rows, the CSV loader (it answers with a
  dataset or throws a \<^verbatim>\<open>runtime_error\<close> with a message), the calendar date of
  \<^verbatim>\<open>today()\<close>, and \<^verbatim>\<open>env.setVariable\<close>, which is taken to change at most the environment's
  \<open>variables\<close> and \<open>currentRow\<close>. They are parameters of the model.
\<close>

record platform =
  stod :: "string \<Rightarrow> double option"
  to_string :: "double \<Rightarrow> string"
  std_sqrt :: "double \<Rightarrow> double"
  std_log :: "double \<Rightarrow> double"
  std_exp :: "double \<Rightarrow> double"
  std_log10 :: "double \<Rightarrow> double"
  sortDataset :: "string list \<Rightarrow> Row list \<Rightarrow> Row list"
  loadDatasetFromCSV :: "string \<Rightarrow> string \<Rightarrow> string \<Rightarrow> string + DataSet"
  today :: int
  setVariable :: "string \<Rightarrow> Value \<Rightarrow> (string \<rightharpoonup> Value) \<times> Row \<Rightarrow> (string \<rightharpoonup> Value) \<times> Row"

definition logWarn :: "string \<Rightarrow> logarg list \<Rightarrow> logline" where
  "logWarn fmt args = (LWarn, fmt, args)"

definition logError :: "string \<Rightarrow> logarg list \<Rightarrow> logline" where
  "logError fmt args = (LError, fmt, args)"

definition logInfo :: "string \<Rightarrow> logarg list \<Rightarrow> logline" where
  "logInfo fmt args = (LInfo, fmt, args)"

section \<open>Conversions\<close>

text \<open>
  \<^verbatim>\<open>Interpreter::toNumber\<close>. A string is parsed by \<^verbatim>\<open>std::stod\<close>; whatever that throws is
  caught and answered with \<^verbatim>\<open>0.0\<close>.
\<close>

fun toNumber :: "platform \<Rightarrow> Value \<Rightarrow> double" where
  "toNumber pf (VDouble d) = d"
| "toNumber pf (VString s) = (case stod pf s of Some d \<Rightarrow> d | None \<Rightarrow> Fin 0)"

section \<open>Evaluating expressions\<close>

text \<open>
  \<^verbatim>\<open>evaluate\<close> reads the state and changes nothing but the log, so its model answers with
  the value or the exception thrown, and with the lines it has logged up to there.
\<close>

type_synonym 'a eval = "(exn + 'a) \<times> logline list"

definition ret :: "'a \<Rightarrow> 'a eval" where
  "ret a = (Inr a, [])"

definition throw :: "exn \<Rightarrow> 'a eval" where
  "throw e = (Inl e, [])"

definition warn :: "string \<Rightarrow> logarg list \<Rightarrow> unit eval" where
  "warn fmt args = (Inr (), [logWarn fmt args])"

definition lift :: "exn + 'a \<Rightarrow> 'a eval" where
  "lift r = (r, [])"

definition bind :: "'a eval \<Rightarrow> ('a \<Rightarrow> 'b eval) \<Rightarrow> 'b eval" where
  "bind m f =
     (case m of
        (Inl e, l) \<Rightarrow> (Inl e, l)
      | (Inr a, l) \<Rightarrow> (case f a of (r, l') \<Rightarrow> (r, l @ l')))"

text \<open>\<^verbatim>\<open>static_cast<int>(toNumber(v))\<close>.\<close>

definition toInt :: "platform \<Rightarrow> Value \<Rightarrow> int eval" where
  "toInt pf v =
     (case static_cast_int (toNumber pf v) of
        None \<Rightarrow> throw UndefinedBehaviour
      | Some i \<Rightarrow> ret i)"

subsection \<open>Arrays\<close>

text \<open>\<^verbatim>\<open>Interpreter::getArrayElement\<close>.\<close>

definition getArrayElement :: "interp \<Rightarrow> string \<Rightarrow> int \<Rightarrow> exn + Value" where
  "getArrayElement st arrayName index =
     (case arrays st arrayName of
        None \<Rightarrow> Inl (RuntimeError (''Undefined array: '' @ arrayName))
      | Some vars \<Rightarrow>
          if index < 1 \<or> index > int (length vars)
          then Inl (RuntimeError (''Array index out of bounds for array: '' @ arrayName))
          else
            let varName = vars ! nat (index - 1) in
            (case columns_find (currentRow st) varName of
               Some v \<Rightarrow> Inr v
             | None \<Rightarrow> Inr (VDouble (Fin 0))))"

text \<open>\<^verbatim>\<open>Interpreter::setArrayElement\<close>.\<close>

definition setArrayElement :: "interp \<Rightarrow> string \<Rightarrow> int \<Rightarrow> Value \<Rightarrow> exn + interp" where
  "setArrayElement st arrayName index val =
     (case arrays st arrayName of
        None \<Rightarrow> Inl (RuntimeError (''Undefined array: '' @ arrayName))
      | Some vars \<Rightarrow>
          if index < 1 \<or> index > int (length vars)
          then Inl (RuntimeError (''Array index out of bounds for array: '' @ arrayName))
          else
            let varName = vars ! nat (index - 1) in
            Inr (st\<lparr>currentRow := columns_assign varName val (currentRow st)\<rparr>))"

subsection \<open>Function calls\<close>

text \<open>\<^verbatim>\<open>::tolower\<close> and \<^verbatim>\<open>::toupper\<close> in the C locale.\<close>

definition tolower :: "char \<Rightarrow> char" where
  "tolower c =
     (if 65 \<le> (of_char c :: nat) \<and> (of_char c :: nat) \<le> 90 then char_of (of_char c + 32 :: nat) else c)"

definition toupper :: "char \<Rightarrow> char" where
  "toupper c =
     (if 97 \<le> (of_char c :: nat) \<and> (of_char c :: nat) \<le> 122 then char_of (of_char c - 32 :: nat) else c)"

text \<open>The characters of \<^verbatim>\<open>" \t\r\n"\<close>.\<close>

definition blank :: "char \<Rightarrow> bool" where
  "blank c = (c = CHR '' '' \<or> c = CHR 0x09 \<or> c = CHR 0x0D \<or> c = CHR 0x0A)"

text \<open>
  \<^verbatim>\<open>str.substr(position, length)\<close> for a position inside the string; the count is
  converted to an unsigned type, so a negative one takes the rest of the string.
\<close>

definition substr :: "string \<Rightarrow> nat \<Rightarrow> int \<Rightarrow> string" where
  "substr str p l = (if l < 0 then drop p str else take (nat l) (drop p str))"

text \<open>\<^verbatim>\<open>std::round\<close> rounds halfway cases away from zero.\<close>

definition std_round :: "real \<Rightarrow> real" where
  "std_round x = (if x \<ge> 0 then of_int \<lfloor>x + 1/2\<rfloor> else of_int \<lceil>x - 1/2\<rceil>)"

text \<open>\<^verbatim>\<open>std::pow(10.0, decimal)\<close> for an \<^verbatim>\<open>int\<close> exponent.\<close>

definition pow10 :: "int \<Rightarrow> real" where
  "pow10 d = (if d \<ge> 0 then 10 ^ nat d else 1 / 10 ^ nat (- d))"

text \<open>
  \<^verbatim>\<open>node->arguments[i]\<close>, evaluated. The arguments are handed over as their evaluations,
  of which a function uses those it reaches, in its own order; an index past the end of
  the vector is undefined behaviour.
\<close>

definition argument :: "Value eval list \<Rightarrow> nat \<Rightarrow> Value eval" where
  "argument evs i = (if i < length evs then evs ! i else throw UndefinedBehaviour)"

definition stringArgument :: "Value eval list \<Rightarrow> nat \<Rightarrow> string eval" where
  "stringArgument evs i = bind (argument evs i) (\<lambda>v. lift (get_string v))"

definition numberArgument :: "platform \<Rightarrow> Value eval list \<Rightarrow> nat \<Rightarrow> double eval" where
  "numberArgument pf evs i = bind (argument evs i) (\<lambda>v. ret (toNumber pf v))"

text \<open>\<^verbatim>\<open>Interpreter::evaluateFunctionCall\<close>, by the name of the function in lower case.\<close>

definition evaluateFunctionCall :: "platform \<Rightarrow> string \<Rightarrow> Value eval list \<Rightarrow> Value eval" where
  "evaluateFunctionCall pf functionName evs =
     (let func = map tolower functionName; n = length evs in
      if func = ''substr'' then
        (if n < 2 \<or> n > 3 then throw (RuntimeError ''substr function expects 2 or 3 arguments.'')
         else
           bind (stringArgument evs 0) (\<lambda>str.
           bind (bind (argument evs 1) (toInt pf)) (\<lambda>p.
           let position = p - 1 in
           bind (if n = 3 then bind (argument evs 2) (toInt pf)
                 else ret (int (length str) - position)) (\<lambda>len.
           if position < 0 \<or> position \<ge> int (length str) then ret (VString [])
           else
             let len' = (if position + len > int (length str)
                         then int (length str) - position else len)
             in ret (VString (substr str (nat position) len'))))))
      else if func = ''trim'' then
        (if n \<noteq> 1 then throw (RuntimeError ''trim function expects 1 argument.'')
         else bind (stringArgument evs 0) (\<lambda>str. ret (VString (rev (dropWhile blank (rev str))))))
      else if func = ''left'' then
        (if n \<noteq> 1 then throw (RuntimeError ''left function expects 1 argument.'')
         else bind (stringArgument evs 0) (\<lambda>str. ret (VString (dropWhile blank str))))
      else if func = ''right'' then
        (if n \<noteq> 1 then throw (RuntimeError ''right function expects 1 argument.'')
         else bind (stringArgument evs 0) (\<lambda>str. ret (VString (rev (dropWhile blank (rev str))))))
      else if func = ''upcase'' then
        (if n \<noteq> 1 then throw (RuntimeError ''upcase function expects 1 argument.'')
         else bind (stringArgument evs 0) (\<lambda>str. ret (VString (map toupper str))))
      else if func = ''lowcase'' then
        (if n \<noteq> 1 then throw (RuntimeError ''lowcase function expects 1 argument.'')
         else bind (stringArgument evs 0) (\<lambda>str. ret (VString (map tolower str))))
      else if func = ''sqrt'' then
        bind (numberArgument pf evs 0) (\<lambda>argNum.
        if dlt argNum (Fin 0)
        then bind (warn ''sqrt() received a negative value. Returning NaN.'' [])
               (\<lambda>_. ret (VDouble NaN))
        else ret (VDouble (std_sqrt pf argNum)))
      else if func = ''abs'' then
        (if n \<noteq> 1 then throw (RuntimeError ''abs function expects 1 argument.'')
         else bind (numberArgument pf evs 0) (\<lambda>num. ret (VDouble (arith1 abs num))))
      else if func = ''log'' then
        bind (numberArgument pf evs 0) (\<lambda>argNum.
        if dle argNum (Fin 0)
        then bind (warn ''log() received a non-positive value. Returning NaN.'' [])
               (\<lambda>_. ret (VDouble NaN))
        else ret (VDouble (std_log pf argNum)))
      else if func = ''ceil'' then
        (if n \<noteq> 1 then throw (RuntimeError ''ceil function expects 1 argument.'')
         else bind (numberArgument pf evs 0)
                (\<lambda>num. ret (VDouble (arith1 (\<lambda>x. of_int \<lceil>x\<rceil>) num))))
      else if func = ''floor'' then
        (if n \<noteq> 1 then throw (RuntimeError ''floor function expects 1 argument.'')
         else bind (numberArgument pf evs 0)
                (\<lambda>num. ret (VDouble (arith1 (\<lambda>x. of_int \<lfloor>x\<rfloor>) num))))
      else if func = ''round'' then
        (if n < 1 \<or> n > 2 then throw (RuntimeError ''round function expects 1 or 2 arguments.'')
         else
           bind (numberArgument pf evs 0) (\<lambda>num.
           bind (if n = 2 then bind (argument evs 1) (toInt pf) else ret 0) (\<lambda>decimal.
           let factor = pow10 decimal in
           ret (VDouble (arith1 (\<lambda>x. std_round (x * factor) / factor) num)))))
      else if func = ''exp'' then
        (if n \<noteq> 1 then throw (RuntimeError ''exp function expects 1 argument.'')
         else bind (numberArgument pf evs 0) (\<lambda>num. ret (VDouble (std_exp pf num))))
      else if func = ''log10'' then
        (if n \<noteq> 1 then throw (RuntimeError ''log10 function expects 1 argument.'')
         else
           bind (numberArgument pf evs 0) (\<lambda>num.
           if dle num (Fin 0) then throw (RuntimeError ''log10 function argument must be positive.'')
           else ret (VDouble (std_log10 pf num))))
      else if func = ''today'' then
        (if n \<noteq> 0 then throw (RuntimeError ''today function expects no arguments.'')
         else ret (VDouble (Fin (of_int (today pf)))))
      else if func = ''datepart'' then
        (if n \<noteq> 1 then throw (RuntimeError ''datepart function expects 1 argument.'')
         else bind (numberArgument pf evs 0) (\<lambda>datetime. ret (VDouble datetime)))
      else if func = ''timepart'' then
        (if n \<noteq> 1 then throw (RuntimeError ''timepart function expects 1 argument.'')
         else bind (numberArgument pf evs 0) (\<lambda>datetime. ret (VDouble datetime)))
      else if func = ''intck'' then
        (if n \<noteq> 3 then throw (RuntimeError ''intck function expects 3 arguments.'')
         else
           bind (stringArgument evs 0) (\<lambda>interval.
           bind (numberArgument pf evs 1) (\<lambda>start.
           bind (numberArgument pf evs 2) (\<lambda>endDate.
           if interval = ''day'' then
             (case static_cast_int (dsub endDate start) of
                None \<Rightarrow> throw UndefinedBehaviour
              | Some days \<Rightarrow> ret (VDouble (Fin (of_int days))))
           else throw (RuntimeError (''Unsupported interval in intck function: '' @ interval))))))
      else if func = ''intnx'' then
        (if n < 3 \<or> n > 4 then throw (RuntimeError ''intnx function expects 3 or 4 arguments.'')
         else
           bind (stringArgument evs 0) (\<lambda>interval.
           bind (numberArgument pf evs 1) (\<lambda>start.
           bind (numberArgument pf evs 2) (\<lambda>increment.
           bind (if n = 4 then stringArgument evs 3 else ret ''beginning'') (\<lambda>alignment.
           if interval = ''day'' then ret (VDouble (dadd start increment))
           else throw (RuntimeError (''Unsupported interval in intnx function: '' @ interval)))))))
      else throw (RuntimeError (''Unsupported function: '' @ func)))"

subsection \<open>Expressions\<close>

text \<open>The operator dispatch of \<^verbatim>\<open>evaluate\<close> on the two operands as numbers.\<close>

definition truth :: "bool \<Rightarrow> Value" where
  "truth b = VDouble (Fin (if b then 1 else 0))"

definition binaryOp :: "string \<Rightarrow> double \<Rightarrow> double \<Rightarrow> Value eval" where
  "binaryOp op l r =
     (if op = ''+'' then ret (VDouble (dadd l r))
      else if op = ''-'' then ret (VDouble (dsub l r))
      else if op = ''*'' then ret (VDouble (dmul l r))
      else if op = ''/'' then ret (VDouble (if dne r (Fin 0) then ddiv l r else NaN))
      else if op = ''>'' then ret (truth (dgt l r))
      else if op = ''<'' then ret (truth (dlt l r))
      else if op = ''>='' then ret (truth (dge l r))
      else if op = ''<='' then ret (truth (dle l r))
      else if op = ''=='' then ret (truth (deq l r))
      else if op = ''!='' then ret (truth (dne l r))
      else if op = ''and'' then ret (truth (dne l (Fin 0) \<and> dne r (Fin 0)))
      else if op = ''or'' then ret (truth (dne l (Fin 0) \<or> dne r (Fin 0)))
      else throw (RuntimeError (''Unsupported binary operator: '' @ op)))"

text \<open>\<^verbatim>\<open>Interpreter::evaluate\<close>.\<close>

fun evaluate :: "platform \<Rightarrow> interp \<Rightarrow> expr \<Rightarrow> Value eval" where
  "evaluate pf st (NumberNode v) = ret (VDouble v)"
| "evaluate pf st (StringNode s) = ret (VString s)"
| "evaluate pf st (VariableNode varName) =
     (case variables st varName of
        Some v \<Rightarrow> ret v
      | None \<Rightarrow>
          bind (warn ''Variable '{}' not found. Using missing value.'' [S varName])
            (\<lambda>_. ret (VDouble NaN)))"
| "evaluate pf st (FunctionCallNode f args) =
     evaluateFunctionCall pf f (map (evaluate pf st) args)"
| "evaluate pf st (ArrayElementNode arrayName i) =
     bind (bind (evaluate pf st i) (toInt pf)) (\<lambda>index. lift (getArrayElement st arrayName index))"
| "evaluate pf st (BinaryOpNode op l r) =
     bind (evaluate pf st l) (\<lambda>leftVal.
     bind (evaluate pf st r) (\<lambda>rightVal.
     binaryOp op (toNumber pf leftVal) (toNumber pf rightVal)))"
| "evaluate pf st OtherExprNode =
     throw (RuntimeError ''Unsupported expression type during evaluation.'')"

section \<open>A platform and a start state for running examples\<close>

text \<open>
  Modelled from the C++ standard, for running the model on concrete inputs: what
  \<^verbatim>\<open>std::stod\<close> does with a text in decimal notation. It skips leading white space, reads
  an optional sign, digits with an optional fraction, and an optional exponent, ignores
  whatever follows, and throws (\<open>None\<close>) when no digit was read. Hexadecimal notation,
  the spellings of infinity and not-a-number, and values out of the range of a double
  are not modelled; no example uses them.
\<close>

definition isspace :: "char \<Rightarrow> bool" where
  "isspace c = (c = CHR '' '' \<or> (9 \<le> (of_char c :: nat) \<and> (of_char c :: nat) \<le> 13))"

definition isdigit :: "char \<Rightarrow> bool" where
  "isdigit c = (48 \<le> (of_char c :: nat) \<and> (of_char c :: nat) \<le> 57)"

definition digitsValue :: "string \<Rightarrow> nat" where
  "digitsValue ds = foldl (\<lambda>n c. 10 * n + (of_char c - 48)) 0 ds"

definition readSign :: "string \<Rightarrow> bool \<times> string" where
  "readSign s =
     (case s of
        [] \<Rightarrow> (False, [])
      | c # r \<Rightarrow> if c = CHR ''-'' then (True, r) else if c = CHR ''+'' then (False, r) else (False, s))"

definition readExponent :: "string \<Rightarrow> int" where
  "readExponent s =
     (case s of
        [] \<Rightarrow> 0
      | c # r \<Rightarrow>
          if c = CHR ''e'' \<or> c = CHR ''E'' then
            (let (neg, r') = readSign r; ds = takeWhile isdigit r' in
             if ds = [] then 0
             else if neg then - int (digitsValue ds) else int (digitsValue ds))
          else 0)"

definition stod_decimal :: "string \<Rightarrow> double option" where
  "stod_decimal s =
     (let (neg, s2) = readSign (dropWhile isspace s);
          ip = takeWhile isdigit s2;
          s3 = dropWhile isdigit s2;
          (fp, s4) = (case s3 of
                        [] \<Rightarrow> ([], [])
                      | c # r \<Rightarrow> if c = CHR ''.'' then (takeWhile isdigit r, dropWhile isdigit r)
                                else ([], s3))
      in if ip = [] \<and> fp = [] then None
         else
           let v = real (digitsValue (ip @ fp)) / 10 ^ length fp * pow10 (readExponent s4)
           in Some (Fin (if neg then - v else v)))"

text \<open>
  Modelled from the spec (sorting is "stable, ascending"), for running examples:
  \<^verbatim>\<open>Sorter::sortDataset\<close> as a stable insertion sort on the numeric values of the BY
  variables, a variable that is absent or not numeric counting as zero, as
  \<^verbatim>\<open>executeMerge\<close> itself reads them.
\<close>

fun keyLess :: "double list \<Rightarrow> double list \<Rightarrow> bool" where
  "keyLess (a # as) (b # bs) = (dlt a b \<or> (deq a b \<and> keyLess as bs))"
| "keyLess _ _ = False"

fun insertRow :: "string list \<Rightarrow> Row \<Rightarrow> Row list \<Rightarrow> Row list" where
  "insertRow by r [] = [r]"
| "insertRow by r (x # xs) =
     (if keyLess (map (byValue r) by) (map (byValue x) by) then r # x # xs
      else x # insertRow by r xs)"

definition stableSort :: "string list \<Rightarrow> Row list \<Rightarrow> Row list" where
  "stableSort by rs = foldr (insertRow by) rs []"

text \<open>
  The example platform: decimal \<^verbatim>\<open>stod\<close>, the exact real functions for the C library's
  (they are not computed with, so they are kept out of the evaluation of examples),
  the stable sort, a file system on which no CSV file can be opened, and a fixed date.
  \<^verbatim>\<open>std::to_string\<close> is not needed by any example and answers with the empty text.
  \<^verbatim>\<open>setVariable\<close> stores into \<^verbatim>\<open>env.variables\<close>, where \<^verbatim>\<open>evaluate\<close> looks a variable up.
\<close>

definition exact_sqrt :: "double \<Rightarrow> double" where [code del]:
  "exact_sqrt = arith1 sqrt"

definition exact_log :: "double \<Rightarrow> double" where [code del]:
  "exact_log = arith1 ln"

definition exact_exp :: "double \<Rightarrow> double" where [code del]:
  "exact_exp = arith1 exp"

definition exact_log10 :: "double \<Rightarrow> double" where [code del]:
  "exact_log10 = arith1 (log 10)"

definition examplePlatform :: platform where
  "examplePlatform =
     \<lparr>stod = stod_decimal,
      to_string = (\<lambda>d. []),
      std_sqrt = exact_sqrt,
      std_log = exact_log,
      std_exp = exact_exp,
      std_log10 = exact_log10,
      sortDataset = stableSort,
      loadDatasetFromCSV = (\<lambda>libref dataset path. Inl (''Cannot open file: '' @ path)),
      today = 20261103,
      setVariable = (\<lambda>varName val (vars, row). (vars(varName \<mapsto> val), row))\<rparr>"

text \<open>The interpreter before it has run anything.\<close>

definition initial :: interp where
  "initial =
     \<lparr>dataSets = Map.empty, variables = Map.empty, currentRow = [], title = [],
      options = Map.empty, librefs = Map.empty, currentDataSet = [],
      arrays = Map.empty, byVariables = [], loopStack = [], retainVars = [],
      logLogger = [], lstLogger = []\<rparr>"

section \<open>Statements of the DATA step\<close>

text \<open>
  A statement either completes (\<open>None\<close>) or throws; either way it leaves a state behind,
  since what was done before a throw is not undone.
\<close>

type_synonym result = "exn option \<times> interp"

definition logged :: "logline list \<Rightarrow> interp \<Rightarrow> interp" where
  "logged ls st = st\<lparr>logLogger := logLogger st @ ls\<rparr>"

text \<open>The call \<^verbatim>\<open>env.setVariable(varName, val)\<close>.\<close>

definition env_setVariable :: "platform \<Rightarrow> string \<Rightarrow> Value \<Rightarrow> interp \<Rightarrow> interp" where
  "env_setVariable pf varName val st =
     (let (vars, row) = setVariable pf varName val (variables st, currentRow st)
      in st\<lparr>variables := vars, currentRow := row\<rparr>)"

text \<open>\<^verbatim>\<open>Interpreter::executeAssignment\<close>.\<close>

definition executeAssignment :: "platform \<Rightarrow> string \<Rightarrow> expr \<Rightarrow> interp \<Rightarrow> result" where
  "executeAssignment pf varName expression st =
     (case evaluate pf st expression of
        (Inl e, ls) \<Rightarrow> (Some e, logged ls st)
      | (Inr val, ls) \<Rightarrow> (None, env_setVariable pf varName val (logged ls st)))"

text \<open>\<^verbatim>\<open>Interpreter::executeOutput\<close> writes a line to the log and does nothing else.\<close>

definition executeOutput :: "interp \<Rightarrow> result" where
  "executeOutput st = (None, st)"

text \<open>The loop over \<^verbatim>\<open>thenStatements\<close> in \<^verbatim>\<open>Interpreter::executeIfThen\<close>.\<close>

fun ifThenStatements :: "platform \<Rightarrow> ASTNode list \<Rightarrow> interp \<Rightarrow> result" where
  "ifThenStatements pf [] st = (None, st)"
| "ifThenStatements pf (stmt # stmts) st =
     (case (case stmt of
              AssignmentNode varName expression \<Rightarrow> executeAssignment pf varName expression st
            | OutputNode \<Rightarrow> executeOutput st
            | _ \<Rightarrow> (Some (RuntimeError ''Unsupported statement in IF-THEN block.''), st)) of
        (None, st') \<Rightarrow> ifThenStatements pf stmts st'
      | (Some e, st') \<Rightarrow> (Some e, st'))"

text \<open>\<^verbatim>\<open>Interpreter::executeIfThen\<close>.\<close>

definition executeIfThen :: "platform \<Rightarrow> expr \<Rightarrow> ASTNode list \<Rightarrow> interp \<Rightarrow> result" where
  "executeIfThen pf condition thenStatements st =
     (case evaluate pf st condition of
        (Inl e, ls) \<Rightarrow> (Some e, logged ls st)
      | (Inr cond, ls) \<Rightarrow>
          if dne (toNumber pf cond) (Fin 0) then ifThenStatements pf thenStatements (logged ls st)
          else (None, logged ls st))"

text \<open>\<^verbatim>\<open>Interpreter::executeDrop\<close>.\<close>

definition executeDrop :: "string list \<Rightarrow> interp \<Rightarrow> result" where
  "executeDrop vars st =
     (None, st\<lparr>currentRow := foldl (\<lambda>row var. columns_erase var row) (currentRow st) vars\<rparr>)"

text \<open>\<^verbatim>\<open>Interpreter::executeKeep\<close>: the names of the current row are collected, then each one
  that is not listed is erased.\<close>

definition executeKeep :: "string list \<Rightarrow> interp \<Rightarrow> result" where
  "executeKeep vars st =
     (let currentVars = map fst (currentRow st) in
      (None, st\<lparr>currentRow :=
                  foldl (\<lambda>row var. if var \<in> set vars then row else columns_erase var row)
                    (currentRow st) currentVars\<rparr>))"

text \<open>\<^verbatim>\<open>Interpreter::executeRetain\<close> appends to the interpreter's member \<^verbatim>\<open>retainVars\<close>.\<close>

definition executeRetain :: "string list \<Rightarrow> interp \<Rightarrow> result" where
  "executeRetain vars st = (None, st\<lparr>retainVars := retainVars st @ vars\<rparr>)"

text \<open>\<^verbatim>\<open>Interpreter::executeArray\<close>.\<close>

definition executeArray :: "string \<Rightarrow> int \<Rightarrow> string list \<Rightarrow> interp \<Rightarrow> result" where
  "executeArray arrayName n vars st =
     (if n \<noteq> int (length vars)
      then (Some (RuntimeError ''Array size does not match the number of variables.''), st)
      else (None, st\<lparr>arrays := (arrays st)(arrayName \<mapsto> vars)\<rparr>))"

subsection \<open>The iterative DO loop\<close>

text \<open>
  A DO loop need not end, so its model takes fuel: \<open>None\<close> says that the fuel ran out. The
  fuel bounds the number of iterations of each loop and the depth to which loops are nested.

  One statement of the loop body, as both copies of the dispatch in
  \<^verbatim>\<open>Interpreter::executeDo\<close> have it; \<open>rec\<close> runs a nested \<^verbatim>\<open>DoNode\<close>.
\<close>

definition doStatement ::
  "(string \<Rightarrow> expr \<Rightarrow> expr \<Rightarrow> expr option \<Rightarrow> ASTNode list \<Rightarrow> interp \<Rightarrow> result option) \<Rightarrow>
   platform \<Rightarrow> ASTNode \<Rightarrow> interp \<Rightarrow> result option" where
  "doStatement rec pf stmt st =
     (case stmt of
        AssignmentNode varName expression \<Rightarrow> Some (executeAssignment pf varName expression st)
      | IfThenNode condition thenStatements \<Rightarrow> Some (executeIfThen pf condition thenStatements st)
      | OutputNode \<Rightarrow> Some (executeOutput st)
      | DropNode vars \<Rightarrow> Some (executeDrop vars st)
      | KeepNode vars \<Rightarrow> Some (executeKeep vars st)
      | RetainNode vars \<Rightarrow> Some (executeRetain vars st)
      | ArrayNode arrayName n vars \<Rightarrow> Some (executeArray arrayName n vars st)
      | DoNode loopVar startExpr endExpr incrementExpr statements \<Rightarrow>
          rec loopVar startExpr endExpr incrementExpr statements st
      | _ \<Rightarrow> Some (Some (RuntimeError ''Unsupported statement in DO loop.''), st))"

fun doStatements ::
  "(string \<Rightarrow> expr \<Rightarrow> expr \<Rightarrow> expr option \<Rightarrow> ASTNode list \<Rightarrow> interp \<Rightarrow> result option) \<Rightarrow>
   platform \<Rightarrow> ASTNode list \<Rightarrow> interp \<Rightarrow> result option" where
  "doStatements rec pf [] st = Some (None, st)"
| "doStatements rec pf (stmt # stmts) st =
     (case doStatement rec pf stmt st of
        None \<Rightarrow> None
      | Some (Some e, st') \<Rightarrow> Some (Some e, st')
      | Some (None, st') \<Rightarrow> doStatements rec pf stmts st')"

text \<open>
  The two \<^verbatim>\<open>while\<close> loops of \<^verbatim>\<open>executeDo\<close>: \<open>up\<close> tells the one for a positive increment
  (test \<^verbatim>\<open><= end\<close>) from the one for a negative increment (test \<^verbatim>\<open>>= end\<close>). The loop
  variable is read through \<^verbatim>\<open>operator[]\<close>; the loop goes on while it holds a double that
  passes the test.
\<close>

primrec doWhile ::
  "nat \<Rightarrow> (interp \<Rightarrow> result option) \<Rightarrow> platform \<Rightarrow> bool \<Rightarrow> string \<Rightarrow> double \<Rightarrow> double \<Rightarrow>
   interp \<Rightarrow> result option" where
  "doWhile 0 body pf up loopVar endVal increment st = None"
| "doWhile (Suc fuel) body pf up loopVar endVal increment st =
     (let (v, row) = columns_subscript loopVar (currentRow st);
          st1 = st\<lparr>currentRow := row\<rparr>
      in if (case v of
               VDouble d \<Rightarrow> if up then dle d endVal else dge d endVal
             | VString _ \<Rightarrow> False)
         then
           (case body st1 of
              None \<Rightarrow> None
            | Some (Some e, st2) \<Rightarrow> Some (Some e, st2)
            | Some (None, st2) \<Rightarrow>
                let (v2, row2) = columns_subscript loopVar (currentRow st2);
                    currentVal = dadd (toNumber pf v2) increment;
                    st3 = st2\<lparr>currentRow := columns_assign loopVar (VDouble currentVal) row2\<rparr>
                in doWhile fuel body pf up loopVar endVal increment st3)
         else Some (None, st1))"

text \<open>\<^verbatim>\<open>Interpreter::executeDo\<close> with \<open>rec\<close> for a \<^verbatim>\<open>DoNode\<close> nested in the body.\<close>

definition executeDoWith ::
  "(string \<Rightarrow> expr \<Rightarrow> expr \<Rightarrow> expr option \<Rightarrow> ASTNode list \<Rightarrow> interp \<Rightarrow> result option) \<Rightarrow>
   nat \<Rightarrow> platform \<Rightarrow> string \<Rightarrow> expr \<Rightarrow> expr \<Rightarrow> expr option \<Rightarrow> ASTNode list \<Rightarrow> interp \<Rightarrow>
   result option" where
  "executeDoWith rec fuel pf loopVar startExpr endExpr incrementExpr statements st =
     (case evaluate pf st startExpr of
        (Inl e, ls) \<Rightarrow> Some (Some e, logged ls st)
      | (Inr startVal, ls) \<Rightarrow>
     (let st1 = logged ls st in
      case evaluate pf st1 endExpr of
        (Inl e, ls) \<Rightarrow> Some (Some e, logged ls st1)
      | (Inr endVal, ls) \<Rightarrow>
     (let st2 = logged ls st1;
          start = toNumber pf startVal;
          endv = toNumber pf endVal
      in
      case (case incrementExpr of
              None \<Rightarrow> (Inr (Fin 1), [])
            | Some ie \<Rightarrow> (case evaluate pf st2 ie of
                           (Inl e, ls) \<Rightarrow> (Inl e, ls)
                         | (Inr incVal, ls) \<Rightarrow> (Inr (toNumber pf incVal), ls))) of
        (Inl e, ls) \<Rightarrow> Some (Some e, logged ls st2)
      | (Inr increment, ls) \<Rightarrow>
     (let st3 = logged ls st2;
          st4 = st3\<lparr>currentRow := columns_assign loopVar (VDouble start) (currentRow st3)\<rparr>
      in
      if dgt increment (Fin 0) then
        doWhile fuel (doStatements rec pf statements) pf True loopVar endv increment st4
      else if dlt increment (Fin 0) then
        doWhile fuel (doStatements rec pf statements) pf False loopVar endv increment st4
      else Some (Some (RuntimeError ''DO loop increment cannot be zero.''), st4)))))"

primrec executeDo ::
  "nat \<Rightarrow> platform \<Rightarrow> string \<Rightarrow> expr \<Rightarrow> expr \<Rightarrow> expr option \<Rightarrow> ASTNode list \<Rightarrow> interp \<Rightarrow>
   result option" where
  "executeDo 0 pf loopVar startExpr endExpr incrementExpr statements st = None"
| "executeDo (Suc fuel) pf loopVar startExpr endExpr incrementExpr statements st =
     executeDoWith (executeDo fuel pf) fuel pf loopVar startExpr endExpr incrementExpr statements st"

section \<open>Datasets of the environment\<close>

text \<open>
  \<^verbatim>\<open>DataEnvironment::resolveLibref\<close> and \<^verbatim>\<open>DataEnvironment::getOrCreateDataset\<close>. Whether
  the libref is known or not, the full name is the same. The dataset is created empty
  when the environment has none of that name; the answer is the pointer, modelled as the
  full name.
\<close>

definition resolveLibref :: "string \<Rightarrow> string \<Rightarrow> string" where
  "resolveLibref libref datasetName =
     (if libref = [] then ''WORK.'' @ datasetName else libref @ ''.'' @ datasetName)"

definition getOrCreateDataset :: "string \<Rightarrow> string \<Rightarrow> interp \<Rightarrow> string \<times> interp" where
  "getOrCreateDataset libref datasetName st =
     (let fullName = resolveLibref libref datasetName in
      case dataSets st fullName of
        Some ds \<Rightarrow> (fullName, st)
      | None \<Rightarrow>
          (fullName,
           st\<lparr>dataSets := (dataSets st)(fullName \<mapsto> \<lparr>name = fullName, rows = [], columnOrder = []\<rparr>)\<rparr>))"

text \<open>The rows of the dataset behind a pointer; the pointers the code holds are never null.\<close>

definition rowsOf :: "interp \<Rightarrow> string \<Rightarrow> Row list" where
  "rowsOf st p = (case dataSets st p of Some ds \<Rightarrow> rows ds | None \<Rightarrow> [])"

definition setRows :: "string \<Rightarrow> Row list \<Rightarrow> interp \<Rightarrow> interp" where
  "setRows p rs st =
     (case dataSets st p of
        Some ds \<Rightarrow> st\<lparr>dataSets := (dataSets st)(p \<mapsto> ds\<lparr>rows := rs\<rparr>)\<rparr>
      | None \<Rightarrow> st)"

text \<open>
  \<^verbatim>\<open>DataSet::addRow\<close> is not among the sources; by the sources' description of the call
  ("push currentRow into ds->rows") it appends the row to the dataset's rows.
\<close>

definition addRow :: "string \<Rightarrow> Row \<Rightarrow> interp \<Rightarrow> interp" where
  "addRow p row st = setRows p (rowsOf st p @ [row]) st"

section \<open>MERGE\<close>

text \<open>
  The merged row of \<^verbatim>\<open>executeMerge\<close>. A column of a matched row is written under its own
  name when it is a BY variable or when the merged row has no column of that name yet;
  otherwise it is written under a new name, which the code builds from the name of the
  first column of the row it comes from, an underscore and the column's name.
\<close>

definition mergeColumn :: "string list \<Rightarrow> Row \<Rightarrow> Row \<Rightarrow> string \<times> Value \<Rightarrow> Row" where
  "mergeColumn by row mergedRow column =
     (if fst column \<in> set by then columns_assign (fst column) (snd column) mergedRow
      else if columns_find mergedRow (fst column) = None
           then columns_assign (fst column) (snd column) mergedRow
           else columns_assign (fst (hd row) @ ''_'' @ fst column) (snd column) mergedRow)"

definition mergeRow :: "string list \<Rightarrow> Row \<Rightarrow> Row \<Rightarrow> Row" where
  "mergeRow by mergedRow row = foldl (mergeColumn by row) mergedRow row"

definition mergeMatchedRows :: "string list \<Rightarrow> Row list \<Rightarrow> Row" where
  "mergeMatchedRows by matchedRows = foldl (mergeRow by) [] matchedRows"

text \<open>
  The check "for data type consistency": for each BY variable in turn the current value
  of every further dataset is compared with that of the first. A dataset that has no
  current row has an empty vector of values, and indexing it is undefined behaviour.
\<close>

fun checkAgainst :: "string \<Rightarrow> double \<Rightarrow> nat \<Rightarrow> double list list \<Rightarrow> exn option" where
  "checkAgainst var referenceVal j [] = None"
| "checkAgainst var referenceVal j (vals # rest) =
     (if j \<ge> length vals then Some UndefinedBehaviour
      else if dne (vals ! j) referenceVal
      then Some (RuntimeError (''Data type mismatch for BY variable '' @ [CHR 0x27] @ var @ [CHR 0x27] @ '' across datasets.''))
      else checkAgainst var referenceVal j rest)"

fun checkConsistency :: "string list \<Rightarrow> nat \<Rightarrow> double list list \<Rightarrow> exn option" where
  "checkConsistency [] j currentBYValues = None"
| "checkConsistency (var # vars) j currentBYValues =
     (case currentBYValues of
        [] \<Rightarrow> Some UndefinedBehaviour
      | first # rest \<Rightarrow>
          if j \<ge> length first then Some UndefinedBehaviour
          else (case checkAgainst var (first ! j) j rest of
                  Some e \<Rightarrow> Some e
                | None \<Rightarrow> checkConsistency vars (Suc j) currentBYValues))"

text \<open>The component-wise minimum, taken the way the code takes it.\<close>

definition minBY :: "double list list \<Rightarrow> double list" where
  "minBY currentBYValues =
     foldl (\<lambda>minBYValues vals. map2 (\<lambda>m c. if dlt c m then c else m) minBYValues vals)
       (hd currentBYValues) (tl currentBYValues)"

text \<open>Whether a dataset's current values match the minimum in every BY variable.\<close>

definition matches :: "double list \<Rightarrow> double list \<Rightarrow> bool" where
  "matches vals minBYValues = list_all2 (\<lambda>c m. \<not> dne c m) vals minBYValues"

text \<open>
  The \<^verbatim>\<open>while (continueMerging)\<close> loop. \<open>inputs\<close> are the rows of the datasets to merge,
  \<open>iterators\<close> the position in each, \<open>out\<close> the rows appended to the output so far. The
  loop can go on for ever (one dataset whose BY value is \<open>NaN\<close> never advances), so it
  takes fuel. While the loop runs, the output dataset is only appended to and the inputs
  are only read. Should the output be one of the inputs, it has been cleared before
  the loop, and the loop then stops or runs into the undefined indexing before it appends
  anything; so the rows of the inputs can be taken once, before the loop.
\<close>

primrec mergeLoop ::
  "nat \<Rightarrow> string list \<Rightarrow> Row list list \<Rightarrow> nat list \<Rightarrow> Row list \<Rightarrow> (exn option \<times> Row list) option"
  where
  "mergeLoop 0 by inputs iterators out = None"
| "mergeLoop (Suc fuel) by inputs iterators out =
     (let hasRow = map2 (\<lambda>it rs. it < length rs) iterators inputs;
          currentBYValues =
            map2 (\<lambda>it rs. if it < length rs then map (byValue (rs ! it)) by else []) iterators inputs
      in
      if \<not> list_ex id hasRow then Some (None, out)
      else
        (case checkConsistency by 0 currentBYValues of
           Some e \<Rightarrow> Some (Some e, out)
         | None \<Rightarrow>
             let minBYValues = minBY currentBYValues;
                 matched = map2 (\<lambda>has vals. has \<and> matches vals minBYValues) hasRow currentBYValues;
                 matchedRows =
                   concat (map2 (\<lambda>m (it, rs). if m then [rs ! it] else []) matched (zip iterators inputs));
                 iterators' = map2 (\<lambda>m it. if m then it + 1 else it) matched iterators;
                 allDatasetsHaveRows = list_all id (map2 (\<lambda>it rs. it < length rs) iterators' inputs)
             in
             if \<not> allDatasetsHaveRows
             then Some (None, out @ concat (map2 drop iterators' inputs))
             else mergeLoop fuel by inputs iterators' (out @ [mergeMatchedRows by matchedRows])))"

text \<open>
  \<^verbatim>\<open>Interpreter::executeMerge\<close>. The datasets are looked up (and created when they do
  not exist) before the BY variables are checked; they are sorted one after the other;
  the output is the environment's current dataset, whose rows are cleared.
\<close>

fun getOrCreateAll :: "string list \<Rightarrow> interp \<Rightarrow> string list \<times> interp" where
  "getOrCreateAll [] st = ([], st)"
| "getOrCreateAll (dsName # dsNames) st =
     (let (p, st1) = getOrCreateDataset dsName dsName st;
          (ps, st2) = getOrCreateAll dsNames st1
      in (p # ps, st2))"

definition sortAll :: "platform \<Rightarrow> string list \<Rightarrow> string list \<Rightarrow> interp \<Rightarrow> interp" where
  "sortAll pf by ps st = foldl (\<lambda>s p. setRows p (sortDataset pf by (rowsOf s p)) s) st ps"

definition executeMerge :: "nat \<Rightarrow> platform \<Rightarrow> string list \<Rightarrow> interp \<Rightarrow> result option" where
  "executeMerge fuel pf datasets st =
     (let (mergeDatasets, st1) = getOrCreateAll datasets st in
      if byVariables st1 = []
      then Some (Some (RuntimeError ''MERGE statement requires a preceding BY statement.''), st1)
      else
        let st2 = sortAll pf (byVariables st1) mergeDatasets st1;
            outputDataSet = currentDataSet st2
        in
        if dataSets st2 outputDataSet = None then Some (Some UndefinedBehaviour, st2)
        else
          let st3 = setRows outputDataSet [] st2;
              inputs = map (rowsOf st3) mergeDatasets
          in
          (case mergeLoop fuel (byVariables st3) inputs (map (\<lambda>_. 0) mergeDatasets) [] of
             None \<Rightarrow> None
           | Some (r, out) \<Rightarrow> Some (r, setRows outputDataSet out st3)))"

text \<open>\<^verbatim>\<open>Interpreter::executeBy\<close>.\<close>

definition executeBy :: "string list \<Rightarrow> interp \<Rightarrow> result" where
  "executeBy vars st = (None, st\<lparr>byVariables := vars\<rparr>)"

section \<open>The DATA step\<close>

text \<open>
  A dataset name is split at its first dot into libref and name; without a dot the libref
  is empty.
\<close>

definition splitDatasetName :: "string \<Rightarrow> string \<times> string" where
  "splitDatasetName s =
     (if CHR ''.'' \<in> set s
      then (takeWhile (\<lambda>c. c \<noteq> CHR ''.'') s, tl (dropWhile (\<lambda>c. c \<noteq> CHR ''.'') s))
      else ([], s))"

text \<open>
  The flags that \<^verbatim>\<open>executeDataStep\<close> keeps for one iteration: \<^verbatim>\<open>shouldOutput\<close>, \<^verbatim>\<open>hasDrop\<close>,
  \<^verbatim>\<open>hasKeep\<close>, \<^verbatim>\<open>hasRetain\<close>.
\<close>

record flags =
  shouldOutput :: bool
  hasDrop :: bool
  hasKeep :: bool
  hasRetain :: bool

text \<open>One statement of the step body, as the dispatch in \<^verbatim>\<open>executeDataStep\<close> has it.\<close>

definition dataStepStatement ::
  "nat \<Rightarrow> platform \<Rightarrow> ASTNode \<Rightarrow> flags \<Rightarrow> interp \<Rightarrow> (exn option \<times> flags \<times> interp) option" where
  "dataStepStatement fuel pf stmt fl st =
     (case stmt of
        AssignmentNode varName expression \<Rightarrow>
          (case executeAssignment pf varName expression st of (r, st') \<Rightarrow> Some (r, fl, st'))
      | IfThenNode condition thenStatements \<Rightarrow>
          (case executeIfThen pf condition thenStatements st of (r, st') \<Rightarrow> Some (r, fl, st'))
      | OutputNode \<Rightarrow>
          (case executeOutput st of
             (None, st') \<Rightarrow> Some (None, fl\<lparr>shouldOutput := True\<rparr>, st')
           | (Some e, st') \<Rightarrow> Some (Some e, fl, st'))
      | DropNode vars \<Rightarrow>
          (case executeDrop vars st of
             (None, st') \<Rightarrow> Some (None, fl\<lparr>hasDrop := True\<rparr>, st')
           | (Some e, st') \<Rightarrow> Some (Some e, fl, st'))
      | KeepNode vars \<Rightarrow>
          (case executeKeep vars st of
             (None, st') \<Rightarrow> Some (None, fl\<lparr>hasKeep := True\<rparr>, st')
           | (Some e, st') \<Rightarrow> Some (Some e, fl, st'))
      | RetainNode vars \<Rightarrow>
          (case executeRetain vars st of
             (None, st') \<Rightarrow> Some (None, fl\<lparr>hasRetain := True\<rparr>, st')
           | (Some e, st') \<Rightarrow> Some (Some e, fl, st'))
      | ArrayNode arrayName n vars \<Rightarrow>
          (case executeArray arrayName n vars st of (r, st') \<Rightarrow> Some (r, fl, st'))
      | DoNode loopVar startExpr endExpr incrementExpr statements \<Rightarrow>
          (case executeDo fuel pf loopVar startExpr endExpr incrementExpr statements st of
             None \<Rightarrow> None
           | Some (r, st') \<Rightarrow> Some (r, fl, st'))
      | _ \<Rightarrow> Some (Some (RuntimeError ''Unsupported statement in DATA step.''), fl, st))"

fun dataStepStatements ::
  "nat \<Rightarrow> platform \<Rightarrow> ASTNode list \<Rightarrow> flags \<Rightarrow> interp \<Rightarrow> (exn option \<times> flags \<times> interp) option"
  where
  "dataStepStatements fuel pf [] fl st = Some (None, fl, st)"
| "dataStepStatements fuel pf (stmt # stmts) fl st =
     (case dataStepStatement fuel pf stmt fl st of
        None \<Rightarrow> None
      | Some (Some e, fl', st') \<Rightarrow> Some (Some e, fl', st')
      | Some (None, fl', st') \<Rightarrow> dataStepStatements fuel pf stmts fl' st')"

text \<open>
  The three lists \<^verbatim>\<open>dropVars\<close>, \<^verbatim>\<open>keepVars\<close> and \<^verbatim>\<open>retainVars\<close> that
  \<^verbatim>\<open>executeDataStep\<close> declares are cleared in every iteration and nothing appends to them
  (\<^verbatim>\<open>executeRetain\<close> appends to the interpreter's member of the same name), so they are
  empty wherever they are read. With them the three blocks that follow the statements
  are these.

  "Apply DROP and KEEP rules": with \<^verbatim>\<open>hasKeep\<close>, every column whose name is not in
  \<^verbatim>\<open>keepVars\<close> is erased; with \<^verbatim>\<open>hasDrop\<close> alone, the columns in \<^verbatim>\<open>dropVars\<close> are erased.
\<close>

definition applyDropKeep :: "string list \<Rightarrow> string list \<Rightarrow> flags \<Rightarrow> Row \<Rightarrow> Row" where
  "applyDropKeep dropVars keepVars fl row =
     (if hasKeep fl then filter (\<lambda>column. fst column \<in> set keepVars) row
      else if hasDrop fl then foldl (\<lambda>r var. columns_erase var r) row dropVars
      else row)"

text \<open>"Apply RETAIN variables: retain their values across iterations", at the start of an iteration.\<close>

definition retainLoad :: "string list \<Rightarrow> interp \<Rightarrow> interp" where
  "retainLoad retainVarsLocal st =
     foldl (\<lambda>s var. case variables s var of
                       Some v \<Rightarrow> s\<lparr>currentRow := columns_assign var v (currentRow s)\<rparr>
                     | None \<Rightarrow> s) st retainVarsLocal"

text \<open>"Apply RETAIN variables: store their values for the next iteration".\<close>

definition retainStore :: "string list \<Rightarrow> interp \<Rightarrow> interp" where
  "retainStore retainVarsLocal st =
     foldl (\<lambda>s var. case columns_find (currentRow s) var of
                       Some v \<Rightarrow> s\<lparr>variables := (variables s)(var \<mapsto> v)\<rparr>
                     | None \<Rightarrow>
                         (case variables s var of
                            Some v \<Rightarrow> s\<lparr>currentRow := columns_assign var v (currentRow s)\<rparr>
                          | None \<Rightarrow> s)) st retainVarsLocal"

text \<open>
  The loop over the rows of the input. \<open>hasRetainFlag\<close> is the flag as the iteration
  before left it. The rows are those the input has when the loop starts; the statements
  of the body do not touch a dataset. A row is added to the output only under
  \<^verbatim>\<open>shouldOutput\<close>; if the output is the very dataset that is being iterated, adding
  to it is undefined behaviour.
\<close>

fun dataStepRows ::
  "nat \<Rightarrow> platform \<Rightarrow> ASTNode list \<Rightarrow> string \<Rightarrow> string \<Rightarrow> bool \<Rightarrow> Row list \<Rightarrow> interp \<Rightarrow>
   result option" where
  "dataStepRows fuel pf statements inputP outputP hasRetainFlag [] st = Some (None, st)"
| "dataStepRows fuel pf statements inputP outputP hasRetainFlag (row # rest) st =
     (let st1 = st\<lparr>currentRow := row\<rparr>;
          st2 = (if hasRetainFlag then retainLoad [] st1 else st1);
          fl0 = \<lparr>shouldOutput = False, hasDrop = False, hasKeep = False, hasRetain = False\<rparr>
      in
      case dataStepStatements fuel pf statements fl0 st2 of
        None \<Rightarrow> None
      | Some (Some e, fl, st3) \<Rightarrow> Some (Some e, st3)
      | Some (None, fl, st3) \<Rightarrow>
          let st4 = st3\<lparr>currentRow := applyDropKeep [] [] fl (currentRow st3)\<rparr>;
              st5 = (if hasRetain fl then retainStore [] st4 else st4)
          in
          if shouldOutput fl then
            (if outputP = inputP then Some (Some UndefinedBehaviour, st5)
             else dataStepRows fuel pf statements inputP outputP (hasRetain fl) rest
                    (addRow outputP (currentRow st5) st5))
          else dataStepRows fuel pf statements inputP outputP (hasRetain fl) rest st5)"

text \<open>The first \<^verbatim>\<open>MergeStatementNode\<close> among the statements of the step.\<close>

fun findMerge :: "ASTNode list \<Rightarrow> string list option" where
  "findMerge [] = None"
| "findMerge (MergeStatementNode datasets # stmts) = Some datasets"
| "findMerge (stmt # stmts) = findMerge stmts"

text \<open>
  \<^verbatim>\<open>Interpreter::executeDataStep\<close>. \<^verbatim>\<open>getOrCreateDataset\<close> as the sources have it does
  not throw, so the handlers around the two lookups are never entered. The listing of the
  output dataset that the function prints at its end is left out.
\<close>

definition executeDataStep ::
  "nat \<Rightarrow> platform \<Rightarrow> string \<Rightarrow> string \<Rightarrow> ASTNode list \<Rightarrow> interp \<Rightarrow> result option" where
  "executeDataStep fuel pf outputDataSet inputDataSet statements st =
     (let (outputLibref, outputDataset) = splitDatasetName outputDataSet;
          (inputLibref, inputDataset) = splitDatasetName inputDataSet;
          (inputP, st1) = getOrCreateDataset inputLibref inputDataset st;
          (outputP, st2) = getOrCreateDataset outputLibref outputDataset st1;
          st3 = (case dataSets st2 outputP of
                   Some ds \<Rightarrow> st2\<lparr>dataSets := (dataSets st2)(outputP \<mapsto> ds\<lparr>name := outputDataSet\<rparr>)\<rparr>
                 | None \<Rightarrow> st2)
      in
      case (case findMerge statements of
              None \<Rightarrow> Some (None, st3)
            | Some datasets \<Rightarrow> executeMerge fuel pf datasets st3) of
        None \<Rightarrow> None
      | Some (Some e, st4) \<Rightarrow> Some (Some e, st4)
      | Some (None, st4) \<Rightarrow>
          dataStepRows fuel pf statements inputP outputP False (rowsOf st4 inputP) st4)"

section \<open>PROC steps\<close>

text \<open>\<^verbatim>\<open>Interpreter::toString\<close>: a double is printed by \<^verbatim>\<open>std::to_string\<close>, its trailing
  zeros are removed, and then a trailing dot.\<close>

definition toString :: "platform \<Rightarrow> Value \<Rightarrow> string" where
  "toString pf v =
     (case v of
        VDouble d \<Rightarrow>
          (let numStr = rev (dropWhile (\<lambda>c. c = CHR ''0'') (rev (to_string pf d)))
           in if numStr \<noteq> [] \<and> last numStr = CHR ''.'' then butlast numStr else numStr)
      | VString s \<Rightarrow> s)"

text \<open>\<^verbatim>\<open>std::to_string\<close> on the observation number, which is positive.\<close>

fun show_nat :: "nat \<Rightarrow> string" where
  "show_nat n =
     (if n < 10 then [char_of (48 + n)] else show_nat (n div 10) @ [char_of (48 + n mod 10)])"

definition joinTabs :: "string list \<Rightarrow> string" where
  "joinTabs ss = concat (case ss of [] \<Rightarrow> [] | s # rest \<Rightarrow> s # map (\<lambda>t. CHR 0x09 # t) rest)"

definition lst :: "string \<Rightarrow> logarg list \<Rightarrow> interp \<Rightarrow> interp" where
  "lst fmt args st = st\<lparr>lstLogger := lstLogger st @ [logInfo fmt args]\<rparr>"

text \<open>The header line and the lines of the rows, as PROC PRINT writes them.\<close>

definition printRow :: "platform \<Rightarrow> string list \<Rightarrow> nat \<Rightarrow> Row \<Rightarrow> string" where
  "printRow pf order obs row =
     show_nat obs @ [CHR 0x09] @
     joinTabs (map (\<lambda>c. case columns_find row c of Some v \<Rightarrow> toString pf v | None \<Rightarrow> ''.'') order)"

fun printRows :: "platform \<Rightarrow> string list \<Rightarrow> nat \<Rightarrow> Row list \<Rightarrow> interp \<Rightarrow> interp" where
  "printRows pf order obs [] st = st"
| "printRows pf order obs (row # rest) st =
     printRows pf order (obs + 1) rest (lst ''{}'' [S (printRow pf order obs row)] st)"

definition titleLine :: "interp \<Rightarrow> interp" where
  "titleLine st = (if title st \<noteq> [] then lst ''Title: {}'' [S (title st)] st else st)"

definition procPrint :: "platform \<Rightarrow> string \<Rightarrow> interp \<Rightarrow> result" where
  "procPrint pf datasetName st =
     (let (p, st1) = getOrCreateDataset [] datasetName st in
      case dataSets st1 p of
        None \<Rightarrow> (Some UndefinedBehaviour, st1)
      | Some ds \<Rightarrow>
          let st2 = lst ''PROC PRINT Results for Dataset '{}':'' [S (name ds)] st1;
              st3 = titleLine st2;
              st4 = lst ''{}'' [S (joinTabs (columnOrder ds))] st3
          in (None, printRows pf (columnOrder ds) 1 (rows ds) st4))"

text \<open>
  \<^verbatim>\<open>Interpreter::executeProcSort\<close>. The key of a row for NODUPKEY is the text built from
  its BY values.
\<close>

definition sortKey :: "platform \<Rightarrow> string list \<Rightarrow> Row \<Rightarrow> string" where
  "sortKey pf by row =
     concat (map (\<lambda>var. case columns_find row var of
                           Some (VDouble d) \<Rightarrow> to_string pf d @ ''_''
                         | Some (VString s) \<Rightarrow> s @ ''_''
                         | None \<Rightarrow> ''NA_'') by)"

fun whereRows :: "platform \<Rightarrow> expr \<Rightarrow> string \<Rightarrow> Row list \<Rightarrow> interp \<Rightarrow> result" where
  "whereRows pf cond tempP [] st = (None, st)"
| "whereRows pf cond tempP (row # rest) st =
     (let st1 = st\<lparr>currentRow := row\<rparr> in
      case evaluate pf st1 cond of
        (Inl e, ls) \<Rightarrow> (Some e, logged ls st1)
      | (Inr condValue, ls) \<Rightarrow>
          let st2 = logged ls st1;
              conditionTrue = (case condValue of
                                 VDouble d \<Rightarrow> dne d (Fin 0)
                               | VString s \<Rightarrow> s \<noteq> [])
          in whereRows pf cond tempP rest (if conditionTrue then addRow tempP row st2 else st2))"

fun nodupkeyRows :: "platform \<Rightarrow> string list \<Rightarrow> string set \<Rightarrow> Row list \<Rightarrow> Row list" where
  "nodupkeyRows pf by seenKeys [] = []"
| "nodupkeyRows pf by seenKeys (row # rest) =
     (let key = sortKey pf by row in
      if key \<notin> seenKeys then row # nodupkeyRows pf by (insert key seenKeys) rest
      else nodupkeyRows pf by seenKeys rest)"

definition executeProcSort ::
  "platform \<Rightarrow> string \<Rightarrow> string \<Rightarrow> string list \<Rightarrow> expr option \<Rightarrow> bool \<Rightarrow> bool \<Rightarrow> interp \<Rightarrow> result"
  where
  "executeProcSort pf inputDataSet outputDataSet by whereCondition nodupkey duplicates st =
     (let (inputDS, st1) = getOrCreateDataset inputDataSet inputDataSet st in
      case (case whereCondition of
              None \<Rightarrow> (None, inputDS, st1)
            | Some cond \<Rightarrow>
                let (tempDS, st2) = getOrCreateDataset ''TEMP_SORT_FILTERED'' ''TEMP_SORT_FILTERED'' st1;
                    st3 = setRows tempDS [] st2
                in (case whereRows pf cond tempDS (rowsOf st3 inputDS) st3 of
                      (r, st4) \<Rightarrow> (r, tempDS, st4))) of
        (Some e, filteredDS, st5) \<Rightarrow> (Some e, st5)
      | (None, filteredDS, st5) \<Rightarrow>
          let st6 = setRows filteredDS (sortDataset pf by (rowsOf st5 filteredDS)) st5;
              (sortedDS, st9) =
                (if nodupkey then
                   let (tempDS, st7) = getOrCreateDataset ''TEMP_SORT_NODUPKEY'' ''TEMP_SORT_NODUPKEY'' st6;
                       st8 = setRows tempDS [] st7
                   in (tempDS, setRows tempDS (nodupkeyRows pf by {} (rowsOf st8 filteredDS)) st8)
                 else (filteredDS, st6));
              outputDSName = (if outputDataSet = [] then inputDataSet else outputDataSet);
              (outputDS, st10) = getOrCreateDataset outputDSName outputDSName st9
          in
          (case dataSets st10 sortedDS of
             None \<Rightarrow> (Some UndefinedBehaviour, st10)
           | Some sds \<Rightarrow>
               if outputDSName \<noteq> name sds
               then (None, setRows outputDS (rows sds) st10)
               else (None, setRows inputDS (rows sds) st10)))"

text \<open>
  \<^verbatim>\<open>Interpreter::executeProcMeans\<close>. For each row and each listed variable that the row
  holds as a double, the value is added to the variable's sum and its count goes up by
  one. The listing gets a heading, the title if there is one, the line
  \<^verbatim>\<open>Variable<TAB>Mean\<close>, and one line for each listed variable: its mean, or a dot when
  the count is zero. The format and its arguments are kept; how \<^verbatim>\<open>{:.2f}\<close> prints the
  mean is not modelled.
\<close>

definition meansVar ::
  "Row \<Rightarrow> (string \<Rightarrow> double) \<times> (string \<Rightarrow> int) \<Rightarrow> string \<Rightarrow> (string \<Rightarrow> double) \<times> (string \<Rightarrow> int)"
  where
  "meansVar row acc var =
     (case columns_find row var of
        Some (VDouble d) \<Rightarrow>
          ((fst acc)(var := dadd (fst acc var) d), (snd acc)(var := snd acc var + 1))
      | _ \<Rightarrow> acc)"

definition meansRow ::
  "string list \<Rightarrow> (string \<Rightarrow> double) \<times> (string \<Rightarrow> int) \<Rightarrow> Row \<Rightarrow> (string \<Rightarrow> double) \<times> (string \<Rightarrow> int)"
  where
  "meansRow varNames acc row = foldl (meansVar row) acc varNames"

definition meanLine :: "(string \<Rightarrow> double) \<times> (string \<Rightarrow> int) \<Rightarrow> string \<Rightarrow> logline" where
  "meanLine acc var =
     (if snd acc var > 0
      then logInfo (''{}'' @ [CHR 0x09] @ ''{:.2f}'') [S var, D (ddiv (fst acc var) (Fin (of_int (snd acc var))))]
      else logInfo (''{}'' @ [CHR 0x09] @ ''.'') [S var])"

definition executeProcMeans :: "string \<Rightarrow> string list \<Rightarrow> interp \<Rightarrow> result" where
  "executeProcMeans datasetName varNames st =
     (let (p, st1) = getOrCreateDataset [] datasetName st in
      case dataSets st1 p of
        None \<Rightarrow> (Some UndefinedBehaviour, st1)
      | Some ds \<Rightarrow>
          let st2 = lst ''PROC MEANS Results for Dataset '{}':'' [S (name ds)] st1;
              st3 = titleLine st2;
              acc = foldl (meansRow varNames) (\<lambda>var. Fin 0, \<lambda>var. 0) (rows ds);
              st4 = lst (''Variable'' @ [CHR 0x09] @ ''Mean'') [] st3
          in (None, st4\<lparr>lstLogger := lstLogger st4 @ map (meanLine acc) varNames\<rparr>))"

text \<open>
  \<^verbatim>\<open>Interpreter::executeProc\<close> for a node that is not a \<^verbatim>\<open>ProcSortNode\<close>, by its
  \<^verbatim>\<open>procName\<close>. It never calls \<^verbatim>\<open>executeProcMeans\<close>.
\<close>

definition executeProc :: "platform \<Rightarrow> string \<Rightarrow> string \<Rightarrow> interp \<Rightarrow> result" where
  "executeProc pf procName datasetName st =
     (if procName = ''print'' then
        (case procPrint pf datasetName st of
           (Some (RuntimeError msg), st') \<Rightarrow>
             (None, logged [logError ''PROC PRINT failed: {}'' [S msg]] st')
         | r \<Rightarrow> r)
      else if procName = ''means'' then
        (Some (RuntimeError ''PROC MEANS should be handled as ProcMeansNode''), st)
      else (None, logged [logError ''Unsupported PROC: {}'' [S procName]] st))"

section \<open>Global statements\<close>

text \<open>
  \<^verbatim>\<open>executeOptions\<close>, \<^verbatim>\<open>executeLibname\<close> and \<^verbatim>\<open>executeTitle\<close>. The environment's setters
  are not among the sources; by their names they store into the environment's options,
  librefs and title, and the loaded CSV file becomes the dataset \<^verbatim>\<open>in\<close> of the libref.
  A failure to load is caught and logged.
\<close>

definition executeOptions :: "(string \<times> string) list \<Rightarrow> interp \<Rightarrow> result" where
  "executeOptions opts st =
     (None, foldl (\<lambda>s opt. s\<lparr>options := (options s)(fst opt \<mapsto> snd opt)\<rparr>) st opts)"

definition executeLibname :: "platform \<Rightarrow> string \<Rightarrow> string \<Rightarrow> interp \<Rightarrow> result" where
  "executeLibname pf libref path st =
     (let st1 = st\<lparr>librefs := (librefs st)(libref \<mapsto> path)\<rparr>;
          csvPath = path @ [CHR 0x5C] @ ''in.csv''
      in case loadDatasetFromCSV pf libref ''in'' csvPath of
           Inr ds \<Rightarrow> (None, st1\<lparr>dataSets := (dataSets st1)(resolveLibref libref ''in'' \<mapsto> ds)\<rparr>)
         | Inl msg \<Rightarrow> (None, logged [logError ''Failed to load dataset: {}'' [S msg]] st1))"

definition executeTitle :: "string \<Rightarrow> interp \<Rightarrow> result" where
  "executeTitle t st = (let st1 = st\<lparr>title := t\<rparr> in (None, lst ''Title: {}'' [S (title st1)] st1))"

section \<open>Statements run through \<^verbatim>\<open>execute\<close>\<close>

text \<open>
  \<^verbatim>\<open>execute\<close> calls itself through IF/ELSE, blocks and DO loops. The functions that take
  part are written with a parameter \<open>ex\<close> for \<^verbatim>\<open>execute\<close>; \<open>execute\<close> itself closes the knot.
\<close>

fun executeAll ::
  "(ASTNode \<Rightarrow> interp \<Rightarrow> result option) \<Rightarrow> ASTNode list \<Rightarrow> interp \<Rightarrow> result option" where
  "executeAll ex [] st = Some (None, st)"
| "executeAll ex (stmt # stmts) st =
     (case ex stmt st of
        None \<Rightarrow> None
      | Some (Some e, st') \<Rightarrow> Some (Some e, st')
      | Some (None, st') \<Rightarrow> executeAll ex stmts st')"

text \<open>\<^verbatim>\<open>Interpreter::executeBlock\<close>.\<close>

definition executeBlock ::
  "(ASTNode \<Rightarrow> interp \<Rightarrow> result option) \<Rightarrow> ASTNode list \<Rightarrow> interp \<Rightarrow> result option" where
  "executeBlock ex stmts st = executeAll ex stmts st"

text \<open>The statements of one branch of \<^verbatim>\<open>executeIfElse\<close>: a block is run as a block, any
  other statement through \<^verbatim>\<open>execute\<close>.\<close>

definition branchStatements ::
  "(ASTNode \<Rightarrow> interp \<Rightarrow> result option) \<Rightarrow> ASTNode list \<Rightarrow> interp \<Rightarrow> result option" where
  "branchStatements ex stmts st =
     executeAll (\<lambda>stmt. case stmt of BlockNode ss \<Rightarrow> executeBlock ex ss | _ \<Rightarrow> ex stmt) stmts st"

fun elseIfBranches ::
  "(ASTNode \<Rightarrow> interp \<Rightarrow> result option) \<Rightarrow> platform \<Rightarrow> (expr \<times> ASTNode list) list \<Rightarrow>
   ASTNode list \<Rightarrow> interp \<Rightarrow> result option" where
  "elseIfBranches ex pf [] elseStatements st =
     (if elseStatements \<noteq> [] then branchStatements ex elseStatements st else Some (None, st))"
| "elseIfBranches ex pf (branch # branches) elseStatements st =
     (case evaluate pf st (fst branch) of
        (Inl e, ls) \<Rightarrow> Some (Some e, logged ls st)
      | (Inr elseIfCond, ls) \<Rightarrow>
          if dne (toNumber pf elseIfCond) (Fin 0)
          then branchStatements ex (snd branch) (logged ls st)
          else elseIfBranches ex pf branches elseStatements (logged ls st))"

text \<open>\<^verbatim>\<open>Interpreter::executeIfElse\<close>.\<close>

definition executeIfElse ::
  "(ASTNode \<Rightarrow> interp \<Rightarrow> result option) \<Rightarrow> platform \<Rightarrow> expr \<Rightarrow> ASTNode list \<Rightarrow>
   (expr \<times> ASTNode list) list \<Rightarrow> ASTNode list \<Rightarrow> interp \<Rightarrow> result option" where
  "executeIfElse ex pf condition thenStatements branches elseStatements st =
     (case evaluate pf st condition of
        (Inl e, ls) \<Rightarrow> Some (Some e, logged ls st)
      | (Inr cond, ls) \<Rightarrow>
          if dne (toNumber pf cond) (Fin 0)
          then branchStatements ex thenStatements (logged ls st)
          else elseIfBranches ex pf branches elseStatements (logged ls st))"

subsection \<open>The conditional DO loop\<close>

definition MAX_ITERATIONS :: nat where
  "MAX_ITERATIONS = 1000"

text \<open>Whether a value counts as true for a loop condition: a double that is not zero.\<close>

definition conditionHolds :: "Value \<Rightarrow> bool" where
  "conditionHolds condValue = (case condValue of VDouble d \<Rightarrow> dne d (Fin 0) | VString s \<Rightarrow> False)"

text \<open>
  The \<^verbatim>\<open>while (!loopStack.empty())\<close> loop of \<^verbatim>\<open>executeDoLoop\<close>, which works on the loop
  on top of the stack. The iteration count of a loop is stored with it on the stack; the
  code compares it with \<^verbatim>\<open>MAX_ITERATIONS\<close> and changes it nowhere. The loop need not
  end, so it takes fuel.
\<close>

primrec doLoopWhile ::
  "nat \<Rightarrow> (ASTNode \<Rightarrow> interp \<Rightarrow> result option) \<Rightarrow> platform \<Rightarrow> interp \<Rightarrow> result option" where
  "doLoopWhile 0 ex pf st = None"
| "doLoopWhile (Suc fuel) ex pf st =
     (case loopStack st of
        [] \<Rightarrow> Some (None, st)
      | ((condition, isWhile, body), iterationCount) # rest \<Rightarrow>
          if iterationCount \<ge> MAX_ITERATIONS
          then Some (None,
                 logged [logError ''Potential infinite loop detected in DO loop. Exiting loop.'' []]
                   (st\<lparr>loopStack := rest\<rparr>))
          else
            (case (case condition of
                     None \<Rightarrow> (Inr True, [])
                   | Some c \<Rightarrow>
                       (case evaluate pf st c of
                          (Inl e, ls) \<Rightarrow> (Inl e, ls)
                        | (Inr condValue, ls) \<Rightarrow>
                            (Inr (if isWhile then conditionHolds condValue
                                  else \<not> conditionHolds condValue), ls))) of
               (Inl e, ls) \<Rightarrow> Some (Some e, logged ls st)
             | (Inr conditionMet, ls) \<Rightarrow>
                 if conditionMet then
                   (case ex body (logged ls st) of
                      None \<Rightarrow> None
                    | Some (Some e, st') \<Rightarrow> Some (Some e, st')
                    | Some (None, st') \<Rightarrow> doLoopWhile fuel ex pf st')
                 else Some (None, (logged ls st)\<lparr>loopStack := rest\<rparr>)))"

text \<open>\<^verbatim>\<open>Interpreter::executeDoLoop\<close>: the loop is pushed with the count 0.\<close>

definition executeDoLoop ::
  "nat \<Rightarrow> (ASTNode \<Rightarrow> interp \<Rightarrow> result option) \<Rightarrow> platform \<Rightarrow> expr option \<Rightarrow> bool \<Rightarrow> ASTNode \<Rightarrow>
   interp \<Rightarrow> result option" where
  "executeDoLoop fuel ex pf condition isWhile body st =
     doLoopWhile fuel ex pf (st\<lparr>loopStack := ((condition, isWhile, body), 0) # loopStack st\<rparr>)"

text \<open>\<^verbatim>\<open>Interpreter::executeEnd\<close>.\<close>

definition executeEnd :: "interp \<Rightarrow> result" where
  "executeEnd st =
     (if loopStack st = []
      then (Some (RuntimeError ''END statement encountered without a corresponding DO loop.''), st)
      else (None, st\<lparr>loopStack := tl (loopStack st)\<rparr>))"

subsection \<open>\<^verbatim>\<open>execute\<close> and \<^verbatim>\<open>executeProgram\<close>\<close>

text \<open>
  \<^verbatim>\<open>Interpreter::execute\<close>, in the order of its casts. A \<^verbatim>\<open>ProcMeansNode\<close> is met
  as the \<^verbatim>\<open>ProcNode\<close> it is.
\<close>

definition executeWith ::
  "(ASTNode \<Rightarrow> interp \<Rightarrow> result option) \<Rightarrow> nat \<Rightarrow> platform \<Rightarrow> ASTNode \<Rightarrow> interp \<Rightarrow> result option"
  where
  "executeWith ex fuel pf node st =
     (case node of
        DataStepNode outputDataSet inputDataSet statements \<Rightarrow>
          executeDataStep fuel pf outputDataSet inputDataSet statements st
      | OptionsNode opts \<Rightarrow> Some (executeOptions opts st)
      | LibnameNode libref path \<Rightarrow> Some (executeLibname pf libref path st)
      | TitleNode t \<Rightarrow> Some (executeTitle t st)
      | ProcSortNode inputDataSet outputDataSet by whereCondition nodupkey duplicates \<Rightarrow>
          Some (executeProcSort pf inputDataSet outputDataSet by whereCondition nodupkey duplicates st)
      | ProcNode procName datasetName \<Rightarrow> Some (executeProc pf procName datasetName st)
      | ProcMeansNode procName datasetName varNames \<Rightarrow> Some (executeProc pf procName datasetName st)
      | IfElseIfNode condition thenStatements branches elseStatements \<Rightarrow>
          executeIfElse ex pf condition thenStatements branches elseStatements st
      | ArrayNode arrayName n vars \<Rightarrow> Some (executeArray arrayName n vars st)
      | MergeStatementNode datasets \<Rightarrow> executeMerge fuel pf datasets st
      | ByStatementNode vars \<Rightarrow> Some (executeBy vars st)
      | DoLoopNode condition isWhile body \<Rightarrow> executeDoLoop fuel ex pf condition isWhile body st
      | EndNode \<Rightarrow> Some (executeEnd st)
      | _ \<Rightarrow> Some (Some (RuntimeError ''Unknown AST node encountered during execution.''), st))"

primrec execute :: "nat \<Rightarrow> platform \<Rightarrow> ASTNode \<Rightarrow> interp \<Rightarrow> result option" where
  "execute 0 pf node st = None"
| "execute (Suc fuel) pf node st = executeWith (execute fuel pf) fuel pf node st"

text \<open>
  \<^verbatim>\<open>Interpreter::executeProgram\<close>: each top-level statement is executed inside a
  \<^verbatim>\<open>try\<close> whose handler catches \<^verbatim>\<open>std::runtime_error\<close>, logs it and goes on with the
  next statement. Any other exception leaves the function.
\<close>

fun executeProgram :: "nat \<Rightarrow> platform \<Rightarrow> ASTNode list \<Rightarrow> interp \<Rightarrow> result option" where
  "executeProgram fuel pf [] st = Some (None, st)"
| "executeProgram fuel pf (stmt # stmts) st =
     (case execute fuel pf stmt st of
        None \<Rightarrow> None
      | Some (None, st') \<Rightarrow> executeProgram fuel pf stmts st'
      | Some (Some (RuntimeError msg), st') \<Rightarrow>
          executeProgram fuel pf stmts (logged [logError ''Execution error: {}'' [S msg]] st')
      | Some (Some e, st') \<Rightarrow> Some (Some e, st'))"

section \<open>What the properties are stated with\<close>

text \<open>
  What a comparison or a logical operator answers when one operand is missing (\<open>NaN\<close>),
  by the operator and the number that the other operand is.
\<close>

definition missingOperand :: "string \<Rightarrow> double \<Rightarrow> Value" where
  "missingOperand op other =
     (if op = ''!='' \<or> op = ''or'' then VDouble (Fin 1)
      else if op = ''and'' then VDouble (Fin (if dne other (Fin 0) then 1 else 0))
      else VDouble (Fin 0))"

text \<open>The start state after \<^verbatim>\<open>array a{2} x y;\<close>.\<close>

definition exampleArray :: interp where
  "exampleArray = initial\<lparr>arrays := (arrays initial)(''a'' \<mapsto> [''x'', ''y''])\<rparr>"



text \<open>The same datasets with no BY statement executed, and a row already in the output.\<close>

definition mergeExampleNoBy :: interp where
  "mergeExampleNoBy = initial
     \<lparr>dataSets := [''ds1.ds1'' \<mapsto> \<lparr>name = ''ds1.ds1'',
                        rows = [[(''id'', VDouble (Fin 2)), (''v'', VDouble (Fin 11))],
                                [(''id'', VDouble (Fin 1)), (''v'', VDouble (Fin 10))]],
                        columnOrder = [''id'', ''v'']\<rparr>,
                   ''WORK.out'' \<mapsto> \<lparr>name = ''WORK.out'',
                        rows = [[(''id'', VDouble (Fin 7))]], columnOrder = [''id'']\<rparr>],
      currentDataSet := ''WORK.out''\<rparr>"

text \<open>
  The numbers that the rows hold for a variable, in the order of the rows; their mean;
  and the lines that report, for each listed variable, the mean of its numbers or a dot
  when there is none.
\<close>

definition numericValues :: "string \<Rightarrow> Row list \<Rightarrow> double list" where
  "numericValues var rs =
     concat (map (\<lambda>row. case columns_find row var of Some (VDouble d) \<Rightarrow> [d] | _ \<Rightarrow> []) rs)"

definition meanOf :: "double list \<Rightarrow> double" where
  "meanOf ds = ddiv (foldl dadd (Fin 0) ds) (Fin (real (length ds)))"

definition meansLines :: "string list \<Rightarrow> Row list \<Rightarrow> logline list" where
  "meansLines varNames rs =
     map (\<lambda>var. if numericValues var rs = []
                 then logInfo (''{}'' @ [CHR 0x09] @ ''.'') [S var]
                 else logInfo (''{}'' @ [CHR 0x09] @ ''{:.2f}'') [S var, D (meanOf (numericValues var rs))])
       varNames"

text \<open>A dataset \<^verbatim>\<open>WORK.a\<close> with the numeric column \<^verbatim>\<open>x\<close> (1, 2, 6) and the character column \<^verbatim>\<open>s\<close>.\<close>

definition meansExample :: interp where
  "meansExample = initial
     \<lparr>dataSets := [''WORK.a'' \<mapsto> \<lparr>name = ''WORK.a'',
                        rows = [[(''x'', VDouble (Fin 1)), (''s'', VString ''u'')],
                                [(''x'', VDouble (Fin 2)), (''s'', VString ''v'')],
                                [(''x'', VDouble (Fin 6)), (''s'', VString ''w'')]],
                        columnOrder = [''x'', ''s'']\<rparr>]\<rparr>"

text \<open>A dataset \<^verbatim>\<open>WORK.in\<close> with two rows, for \<^verbatim>\<open>data out; set in; ... run;\<close>.\<close>

definition dataStepExample :: interp where
  "dataStepExample = initial
     \<lparr>dataSets := [''WORK.in'' \<mapsto> \<lparr>name = ''WORK.in'',
                        rows = [[(''x'', VDouble (Fin 1))], [(''x'', VDouble (Fin 2))]],
                        columnOrder = [''x'']\<rparr>]\<rparr>"

text \<open>What a DATA step leaves: how it ended and the rows of \<^verbatim>\<open>WORK.out\<close>.\<close>

definition outputOf :: "result option \<Rightarrow> (exn option \<times> Row list) option" where
  "outputOf r = map_option (\<lambda>(e, st). (e, rowsOf st ''WORK.out'')) r"


text \<open>
  \<open>matchedFrom inputs matchedRows\<close>: the rows are taken from the inputs in the order of the
  inputs, at most one row from each input.
\<close>

fun matchedFrom :: "Row list list \<Rightarrow> Row list \<Rightarrow> bool" where
  "matchedFrom [] matchedRows = (matchedRows = [])"
| "matchedFrom (rs # inputs) matchedRows =
     (matchedFrom inputs matchedRows \<or>
      (case matchedRows of [] \<Rightarrow> False | row # others \<Rightarrow> row \<in> set rs \<and> matchedFrom inputs others))"



text \<open>
  A run of a program in which every error is caught at the boundary of its statement,
  one statement at a time: the statement is executed in the state that the statements
  before it have left; a \<^verbatim>\<open>runtime_error\<close> is logged and the next statement finds the state
  that the failed statement left, with the line added to the log. \<open>None\<close> says that the
  run did not get past a statement (another exception, or no fuel left).
\<close>

definition atStepBoundary :: "nat \<Rightarrow> platform \<Rightarrow> interp option \<Rightarrow> ASTNode \<Rightarrow> interp option" where
  "atStepBoundary fuel pf s stmt =
     (case s of
        None \<Rightarrow> None
      | Some st \<Rightarrow>
          (case execute fuel pf stmt st of
             Some (None, st') \<Rightarrow> Some st'
           | Some (Some (RuntimeError msg), st') \<Rightarrow>
               Some (logged [logError ''Execution error: {}'' [S msg]] st')
           | _ \<Rightarrow> None))"

text \<open>
  A program of five statements of which the second, the third and the fourth throw a
  \<^verbatim>\<open>runtime_error\<close> (two PROC MEANS steps and an END without a loop).
\<close>

definition failingProgram :: "ASTNode list" where
  "failingProgram =
     [TitleNode ''first'', ProcNode ''means'' ''a'', EndNode, ProcMeansNode ''means'' ''a'' [''x''],
      TitleNode ''last'']"

text \<open>
  \<^verbatim>\<open>data out; set in; y = upcase(1); run; title 'last';\<close>: the DATA step applies \<^verbatim>\<open>upcase\<close> to
  a number.
\<close>

definition typeErrorProgram :: "ASTNode list" where
  "typeErrorProgram =
     [DataStepNode ''out'' ''in'' [AssignmentNode ''y'' (FunctionCallNode ''upcase'' [NumberNode (Fin 1)])],
      TitleNode ''last'']"

text \<open>What a run leaves: how it ended, the title and the log.\<close>

definition runOf :: "result option \<Rightarrow> (exn option \<times> string \<times> logline list) option" where
  "runOf r = map_option (\<lambda>(e, st). (e, title st, logLogger st)) r"

text \<open>
  \<^verbatim>\<open>do i = 1 to 1000001; retain x; end;\<close>. Every execution of the body appends one name to
  the interpreter's list of retained names, so the length of that list counts the
  iterations.
\<close>

definition countingLoop :: ASTNode where
  "countingLoop =
     DoNode ''i'' (NumberNode (Fin 1)) (NumberNode (Fin 1000001)) None [RetainNode [''x'']]"

definition iterationsOf :: "result option \<Rightarrow> (exn option \<times> nat) option" where
  "iterationsOf r = map_option (\<lambda>(e, st). (e, length (retainVars st))) r"

text \<open>What a run leaves: how it ended, the log and the listing.\<close>

definition listingOf :: "result option \<Rightarrow> (exn option \<times> logline list \<times> logline list) option" where
  "listingOf r = map_option (\<lambda>(e, st). (e, logLogger st, lstLogger st)) r"

section \<open>Properties\<close>

subsection \<open>String literals\<close>

lemma drop_eq_ConsD:
  assumes "drop n xs = a # ys"
  shows "n < length xs" and "xs ! n = a" and "drop (Suc n) xs = ys"
proof -
  show n: "n < length xs" using assms by (cases "n < length xs") auto
  from Cons_nth_drop_Suc[OF n] assms show "xs ! n = a" and "drop (Suc n) xs = ys" by auto
qed

text \<open>
  From a position where the rest of the input is an escaped body, a closing delimiter and
  a remainder that does not begin with the delimiter, the loop returns the unescaped
  body appended to what it had, and stops behind the closing delimiter.
\<close>

lemma scanStringLoop_closed:
  assumes "drop (pos lx) (input lx) = escapeQuote q s @ q # rest"
    and "rest = [] \<or> hd rest \<noteq> q"
  shows "scanStringLoop q val lx =
           Inr (val @ s, lx\<lparr>pos := pos lx + length (escapeQuote q s) + 1,
                              col := col lx + 2 * int (length (escapeQuote q s) + 1)\<rparr>)"
  using assms
proof (induction s arbitrary: val lx)
  case Nil
  then have d: "drop (pos lx) (input lx) = q # rest" by simp
  note f = drop_eq_ConsD[OF d]
  have nq: "\<not> (pos lx + 1 < length (input lx) \<and> input lx ! (pos lx + 1) = q)"
  proof
    assume a: "pos lx + 1 < length (input lx) \<and> input lx ! (pos lx + 1) = q"
    then have "drop (Suc (pos lx)) (input lx) \<noteq> []" by simp
    with f(3) have "rest \<noteq> []" by simp
    moreover have "hd rest = input lx ! (pos lx + 1)"
      using f(3) a by (metis Suc_eq_plus1 hd_drop_conv_nth)
    ultimately show False using Nil.prems(2) a by simp
  qed
  show ?case
    using f(1,2) nq
    by (subst scanStringLoop.simps) (simp add: peekChar_def getChar_def Let_def)
next
  case (Cons c s)
  show ?case
  proof (cases "c = q")
    case True
    with Cons.prems(1) have d: "drop (pos lx) (input lx) = q # q # escapeQuote q s @ q # rest"
      by simp
    note f = drop_eq_ConsD[OF d]
    note g = drop_eq_ConsD[OF f(3)]
    let ?lx3 = "lx\<lparr>pos := pos lx + 2, col := col lx + 4\<rparr>"
    have step: "scanStringLoop q val lx = scanStringLoop q (val @ [q]) ?lx3"
      using f(1,2) g(1,2)
      by (subst scanStringLoop.simps) (simp add: peekChar_def getChar_def Let_def)
    have "drop (pos ?lx3) (input ?lx3) = escapeQuote q s @ q # rest"
      using g(3) by (simp add: numeral_2_eq_2)
    from Cons.IH[OF this Cons.prems(2), of "val @ [q]"] step True
    show ?thesis by simp
  next
    case False
    with Cons.prems(1) have d: "drop (pos lx) (input lx) = c # escapeQuote q s @ q # rest"
      by simp
    note f = drop_eq_ConsD[OF d]
    let ?lx2 = "lx\<lparr>pos := pos lx + 1, col := col lx + 2\<rparr>"
    have step: "scanStringLoop q val lx = scanStringLoop q (val @ [c]) ?lx2"
      using f(1,2) False
      by (subst scanStringLoop.simps) (simp add: peekChar_def getChar_def Let_def)
    have "drop (pos ?lx2) (input ?lx2) = escapeQuote q s @ q # rest"
      using f(3) by simp
    from Cons.IH[OF this Cons.prems(2), of "val @ [c]"] step False
    show ?thesis by simp
  qed
qed

text \<open>When the input ends inside the body, the loop throws.\<close>

lemma scanStringLoop_open:
  assumes "drop (pos lx) (input lx) = escapeQuote q s"
  shows "scanStringLoop q val lx = Inl (RuntimeError ''Unterminated string literal'')"
  using assms
proof (induction s arbitrary: val lx)
  case Nil
  then have "pos lx \<ge> length (input lx)" by simp
  then show ?case by (subst scanStringLoop.simps) simp
next
  case (Cons c s)
  show ?case
  proof (cases "c = q")
    case True
    with Cons.prems(1) have d: "drop (pos lx) (input lx) = q # q # escapeQuote q s" by simp
    note f = drop_eq_ConsD[OF d]
    note g = drop_eq_ConsD[OF f(3)]
    let ?lx3 = "lx\<lparr>pos := pos lx + 2, col := col lx + 4\<rparr>"
    have step: "scanStringLoop q val lx = scanStringLoop q (val @ [q]) ?lx3"
      using f(1,2) g(1,2)
      by (subst scanStringLoop.simps) (simp add: peekChar_def getChar_def Let_def)
    have "drop (pos ?lx3) (input ?lx3) = escapeQuote q s"
      using g(3) by (simp add: numeral_2_eq_2)
    from Cons.IH[OF this, of "val @ [q]"] step
    show ?thesis by simp
  next
    case False
    with Cons.prems(1) have d: "drop (pos lx) (input lx) = c # escapeQuote q s" by simp
    note f = drop_eq_ConsD[OF d]
    let ?lx2 = "lx\<lparr>pos := pos lx + 1, col := col lx + 2\<rparr>"
    have step: "scanStringLoop q val lx = scanStringLoop q (val @ [c]) ?lx2"
      using f(1,2) False
      by (subst scanStringLoop.simps) (simp add: peekChar_def getChar_def Let_def)
    have "drop (pos ?lx2) (input ?lx2) = escapeQuote q s"
      using f(3) by simp
    from Cons.IH[OF this, of "val @ [c]"] step
    show ?thesis by simp
  qed
qed

text \<open>
  C9. A literal opened by the delimiter \<open>q\<close> at the read position, whose body is any text
  \<open>s\<close> written with each delimiter doubled, and closed by one delimiter that is not
  itself followed by a delimiter, is lexed as one \<open>STRING\<close> token whose text is exactly
  \<open>s\<close>: a doubled delimiter gives one delimiter character, every other character
  (a newline as well) is taken as it stands. The lexer stops behind the closing delimiter. If the
  input ends before a closing delimiter, \<^verbatim>\<open>scanString\<close> throws
  "Unterminated string literal". Every input that begins with a delimiter has one of
  these two forms.
\<close>

theorem scanString_literal:
  "(rest = [] \<or> hd rest \<noteq> q \<longrightarrow>
     scanString \<lparr>input = pre @ q # escapeQuote q s @ q # rest, pos = length pre, line = l, col = c\<rparr>
       = Inr (\<lparr>tok_type = STRING, tok_text = s, tok_line = l, tok_col = c\<rparr>,
              \<lparr>input = pre @ q # escapeQuote q s @ q # rest,
               pos = length pre + length (escapeQuote q s) + 2, line = l,
               col = c + 1 + 2 * int (length (escapeQuote q s) + 1)\<rparr>))
   \<and> scanString \<lparr>input = pre @ q # escapeQuote q s, pos = length pre, line = l, col = c\<rparr>
       = Inl (RuntimeError ''Unterminated string literal'')"
proof (intro conjI impI)
  assume r: "rest = [] \<or> hd rest \<noteq> q"
  let ?inp = "pre @ q # escapeQuote q s @ q # rest"
  let ?lx1 = "\<lparr>input = ?inp, pos = length pre + 1, line = l, col = c + 1\<rparr>"
  have "drop (pos ?lx1) (input ?lx1) = escapeQuote q s @ q # rest" by simp
  from scanStringLoop_closed[OF this r, of "[]"]
  show "scanString \<lparr>input = ?inp, pos = length pre, line = l, col = c\<rparr>
       = Inr (\<lparr>tok_type = STRING, tok_text = s, tok_line = l, tok_col = c\<rparr>,
              \<lparr>input = ?inp,
               pos = length pre + length (escapeQuote q s) + 2, line = l,
               col = c + 1 + 2 * int (length (escapeQuote q s) + 1)\<rparr>)"
    by (simp add: scanString_def getChar_def)
next
  let ?inp = "pre @ q # escapeQuote q s"
  let ?lx1 = "\<lparr>input = ?inp, pos = length pre + 1, line = l, col = c + 1\<rparr>"
  have "drop (pos ?lx1) (input ?lx1) = escapeQuote q s" by simp
  from scanStringLoop_open[OF this, of "[]"]
  show "scanString \<lparr>input = ?inp, pos = length pre, line = l, col = c\<rparr>
       = Inl (RuntimeError ''Unterminated string literal'')"
    by (simp add: scanString_def getChar_def)
qed

text \<open>The literal \<^verbatim>\<open>'I''m'\<close> in \<^verbatim>\<open>x = 'I''m';\<close> is lexed as the text \<^verbatim>\<open>I'm\<close>.\<close>

theorem scanString_literal_witness:
  "scanString \<lparr>input = ''x = '' @ CHR 0x27 # escapeQuote (CHR 0x27) (''I'' @ [CHR 0x27] @ ''m'') @ CHR 0x27 # '';'',
       pos = length ''x = '', line = 1, col = 5\<rparr>
     = Inr (\<lparr>tok_type = STRING, tok_text = ''I'' @ [CHR 0x27] @ ''m'', tok_line = 1, tok_col = 5\<rparr>,
            \<lparr>input = ''x = '' @ CHR 0x27 # escapeQuote (CHR 0x27) (''I'' @ [CHR 0x27] @ ''m'') @ CHR 0x27 # '';'',
             pos = 10, line = 1, col = 16\<rparr>)"
  using scanString_literal[of "'';''" "CHR 0x27" "''x = ''" "''I'' @ [CHR 0x27] @ ''m''" 1 5]
  by simp

subsection \<open>Conversion to a number\<close>



subsection \<open>Comparisons and logical operators on a missing operand\<close>

lemma compare_NaN_right [simp]: "compare p l NaN = False"
  by (cases l) simp_all

lemma opcases:
  assumes "op \<in> {''<'', ''<='', ''>'', ''>='', ''=='', ''!='', ''and'', ''or''}"
  obtains "op = ''<''" | "op = ''<=''" | "op = ''>''" | "op = ''>=''"
    | "op = ''==''" | "op = ''!=''" | "op = ''and''" | "op = ''or''"
  using assms by blast

lemma binaryOp_missing_left:
  assumes "op \<in> {''<'', ''<='', ''>'', ''>='', ''=='', ''!='', ''and'', ''or''}"
  shows "binaryOp op NaN r = (Inr (missingOperand op r), [])"
  using assms
proof (cases rule: opcases)
  case 1 then show ?thesis by (simp add: binaryOp_def missingOperand_def ret_def truth_def dlt_def) 
next
  case 2 then show ?thesis by (simp add: binaryOp_def missingOperand_def ret_def truth_def dle_def) 
next
  case 3 then show ?thesis by (simp add: binaryOp_def missingOperand_def ret_def truth_def dgt_def) 
next
  case 4 then show ?thesis by (simp add: binaryOp_def missingOperand_def ret_def truth_def dge_def) 
next
  case 5 then show ?thesis by (simp add: binaryOp_def missingOperand_def ret_def truth_def deq_def) 
next
  case 6 then show ?thesis by (simp add: binaryOp_def missingOperand_def ret_def truth_def dne_def deq_def) 
next
  case 7 then show ?thesis by (simp add: binaryOp_def missingOperand_def ret_def truth_def dne_def deq_def) 
next
  case 8 then show ?thesis by (simp add: binaryOp_def missingOperand_def ret_def truth_def dne_def deq_def) 
qed

lemma binaryOp_missing_right:
  assumes "op \<in> {''<'', ''<='', ''>'', ''>='', ''=='', ''!='', ''and'', ''or''}"
  shows "binaryOp op l NaN = (Inr (missingOperand op l), [])"
  using assms
proof (cases rule: opcases)
  case 1 then show ?thesis by (simp add: binaryOp_def missingOperand_def ret_def truth_def dlt_def) 
next
  case 2 then show ?thesis by (simp add: binaryOp_def missingOperand_def ret_def truth_def dle_def) 
next
  case 3 then show ?thesis by (simp add: binaryOp_def missingOperand_def ret_def truth_def dgt_def) 
next
  case 4 then show ?thesis by (simp add: binaryOp_def missingOperand_def ret_def truth_def dge_def) 
next
  case 5 then show ?thesis by (simp add: binaryOp_def missingOperand_def ret_def truth_def deq_def) 
next
  case 6 then show ?thesis by (simp add: binaryOp_def missingOperand_def ret_def truth_def dne_def deq_def) 
next
  case 7 then show ?thesis by (simp add: binaryOp_def missingOperand_def ret_def truth_def dne_def deq_def) 
next
  case 8 then show ?thesis by (simp add: binaryOp_def missingOperand_def ret_def truth_def dne_def deq_def) 
qed

lemma evaluate_BinaryOp:
  assumes "evaluate pf st l = (Inr lv, ll)" and "evaluate pf st r = (Inr rv, lr)"
    and "binaryOp op (toNumber pf lv) (toNumber pf rv) = (bv, [])"
  shows "evaluate pf st (BinaryOpNode op l r) = (bv, ll @ lr)"
  by (simp add: assms bind_def)

text \<open>
  C4, as the code has it. Let the two operands of a comparison or a logical operator
  evaluate without an exception, one of them to the missing value \<open>NaN\<close>. Then
  \<^verbatim>\<open><\<close>, \<^verbatim>\<open><=\<close>, \<^verbatim>\<open>>\<close>, \<^verbatim>\<open>>=\<close> and \<^verbatim>\<open>==\<close> answer \<^verbatim>\<open>0.0\<close>; \<^verbatim>\<open>!=\<close> answers
  \<^verbatim>\<open>1.0\<close>; \<^verbatim>\<open>or\<close> answers \<^verbatim>\<open>1.0\<close> and \<^verbatim>\<open>and\<close> answers \<^verbatim>\<open>1.0\<close> exactly when the
  other operand is not zero, since the missing value counts as true (it is not equal to
  zero).
\<close>

theorem evaluate_missing_operand:
  assumes "evaluate pf st l = (Inr lv, ll)" and "evaluate pf st r = (Inr rv, lr)"
    and "op \<in> {''<'', ''<='', ''>'', ''>='', ''=='', ''!='', ''and'', ''or''}"
  shows "(toNumber pf lv = NaN \<longrightarrow>
            evaluate pf st (BinaryOpNode op l r) = (Inr (missingOperand op (toNumber pf rv)), ll @ lr))
       \<and> (toNumber pf rv = NaN \<longrightarrow>
            evaluate pf st (BinaryOpNode op l r) = (Inr (missingOperand op (toNumber pf lv)), ll @ lr))"
proof (intro conjI impI)
  assume "toNumber pf lv = NaN"
  with binaryOp_missing_left[OF assms(3), of "toNumber pf rv"]
  have "binaryOp op (toNumber pf lv) (toNumber pf rv) = (Inr (missingOperand op (toNumber pf rv)), [])"
    by simp
  from evaluate_BinaryOp[OF assms(1,2) this]
  show "evaluate pf st (BinaryOpNode op l r) = (Inr (missingOperand op (toNumber pf rv)), ll @ lr)" .
next
  assume "toNumber pf rv = NaN"
  with binaryOp_missing_right[OF assms(3), of "toNumber pf lv"]
  have "binaryOp op (toNumber pf lv) (toNumber pf rv) = (Inr (missingOperand op (toNumber pf lv)), [])"
    by simp
  from evaluate_BinaryOp[OF assms(1,2) this]
  show "evaluate pf st (BinaryOpNode op l r) = (Inr (missingOperand op (toNumber pf lv)), ll @ lr)" .
qed

lemma evaluate_unset_variable:
  "evaluate pf initial (VariableNode ''x'')
     = (Inr (VDouble NaN), [logWarn ''Variable '{}' not found. Using missing value.'' [S ''x'']])"
  by (simp add: initial_def bind_def warn_def ret_def)

text \<open>A variable that was never set is missing: \<^verbatim>\<open>x < 5\<close> and \<^verbatim>\<open>5 == x\<close> are false.\<close>

theorem evaluate_missing_operand_witness:
  "evaluate examplePlatform initial (BinaryOpNode ''<'' (VariableNode ''x'') (NumberNode (Fin 5)))
     = (Inr (VDouble (Fin 0)), [logWarn ''Variable '{}' not found. Using missing value.'' [S ''x'']])
   \<and> evaluate examplePlatform initial (BinaryOpNode ''=='' (NumberNode (Fin 5)) (VariableNode ''x''))
     = (Inr (VDouble (Fin 0)), [logWarn ''Variable '{}' not found. Using missing value.'' [S ''x'']])"
proof -
  have n: "evaluate examplePlatform initial (NumberNode (Fin 5)) = (Inr (VDouble (Fin 5)), [])"
    by (simp add: ret_def)
  have m1: "''<'' \<in> {''<'', ''<='', ''>'', ''>='', ''=='', ''!='', ''and'', ''or''}" by simp
  have m2: "''=='' \<in> {''<'', ''<='', ''>'', ''>='', ''=='', ''!='', ''and'', ''or''}" by simp
  from evaluate_missing_operand[OF evaluate_unset_variable n m1]
    evaluate_missing_operand[OF n evaluate_unset_variable m2]
  show ?thesis
    by (simp add: missingOperand_def)
qed

text \<open>
  With \<^verbatim>\<open>x\<close> missing, \<^verbatim>\<open>x != 5\<close>, \<^verbatim>\<open>x or 0\<close> and \<^verbatim>\<open>5 and x\<close> all answer \<^verbatim>\<open>1.0\<close>.
\<close>

theorem evaluate_missing_operand_counterexample:
  "evaluate examplePlatform initial (BinaryOpNode ''!='' (VariableNode ''x'') (NumberNode (Fin 5)))
     = (Inr (VDouble (Fin 1)), [logWarn ''Variable '{}' not found. Using missing value.'' [S ''x'']])
   \<and> evaluate examplePlatform initial (BinaryOpNode ''or'' (VariableNode ''x'') (NumberNode (Fin 0)))
     = (Inr (VDouble (Fin 1)), [logWarn ''Variable '{}' not found. Using missing value.'' [S ''x'']])
   \<and> evaluate examplePlatform initial (BinaryOpNode ''and'' (NumberNode (Fin 5)) (VariableNode ''x''))
     = (Inr (VDouble (Fin 1)), [logWarn ''Variable '{}' not found. Using missing value.'' [S ''x'']])"
  by (simp add: initial_def bind_def warn_def ret_def binaryOp_def truth_def dne_def deq_def)


subsection \<open>Arrays\<close>

text \<open>
  C8. After an ARRAY statement has declared \<open>arrayName\<close> over \<open>vars\<close>, the declared size
  \<open>n\<close> is the number of variables, and for every index \<open>i\<close>: when \<open>1 \<le> i \<le> n\<close>, a read
  answers with the value of the \<open>i\<close>-th variable in the current row (\<^verbatim>\<open>0.0\<close> if the row
  has none), a write stores into that variable of the current row, and a read after the
  write answers with what was written; for any other index both throw
  "Array index out of bounds".
\<close>

theorem array_access_one_based:
  assumes "executeArray arrayName n vars st = (None, st')"
  shows "n = int (length vars) \<and>
     (if 1 \<le> i \<and> i \<le> n then
        getArrayElement st' arrayName i =
          Inr (case columns_find (currentRow st') (vars ! nat (i - 1)) of
                 Some v \<Rightarrow> v | None \<Rightarrow> VDouble (Fin 0)) \<and>
        setArrayElement st' arrayName i val =
          Inr (st'\<lparr>currentRow := columns_assign (vars ! nat (i - 1)) val (currentRow st')\<rparr>) \<and>
        getArrayElement (st'\<lparr>currentRow := columns_assign (vars ! nat (i - 1)) val (currentRow st')\<rparr>)
          arrayName i = Inr val
      else
        getArrayElement st' arrayName i =
          Inl (RuntimeError (''Array index out of bounds for array: '' @ arrayName)) \<and>
        setArrayElement st' arrayName i val =
          Inl (RuntimeError (''Array index out of bounds for array: '' @ arrayName)))"
proof -
  from assms have n: "n = int (length vars)"
    and st': "st' = st\<lparr>arrays := (arrays st)(arrayName \<mapsto> vars)\<rparr>"
    by (auto simp: executeArray_def split: if_splits)
  have a: "arrays st' arrayName = Some vars" by (simp add: st')
  show ?thesis
  proof (cases "1 \<le> i \<and> i \<le> n")
    case True
    then have r: "\<not> (i < 1 \<or> i > int (length vars))" using n by auto
    have g: "getArrayElement st' arrayName i =
          Inr (case columns_find (currentRow st') (vars ! nat (i - 1)) of
                 Some v \<Rightarrow> v | None \<Rightarrow> VDouble (Fin 0))"
      using r a by (simp add: getArrayElement_def split: option.splits)
    have s: "setArrayElement st' arrayName i val =
          Inr (st'\<lparr>currentRow := columns_assign (vars ! nat (i - 1)) val (currentRow st')\<rparr>)"
      using r a by (simp add: setArrayElement_def)
    have gs: "getArrayElement (st'\<lparr>currentRow := columns_assign (vars ! nat (i - 1)) val (currentRow st')\<rparr>)
          arrayName i = Inr val"
      using r a by (simp add: getArrayElement_def columns_find_def columns_assign_def update_conv')
    from True n g s gs show ?thesis by (simp only: if_True simp_thms)
  next
    case False
    then have r: "i < 1 \<or> i > int (length vars)" using n by auto
    have g: "getArrayElement st' arrayName i =
          Inl (RuntimeError (''Array index out of bounds for array: '' @ arrayName))"
      using r a by (simp add: getArrayElement_def)
    have s: "setArrayElement st' arrayName i val =
          Inl (RuntimeError (''Array index out of bounds for array: '' @ arrayName))"
      using r a by (simp add: setArrayElement_def)
    from False n g s show ?thesis by (simp only: if_False simp_thms)
  qed
qed


text \<open>With \<^verbatim>\<open>array a{2} x y;\<close> the indices 1 and 2 are served, 0 and 3 are refused.\<close>

theorem array_access_one_based_witness:
  "getArrayElement exampleArray ''a'' 2 = Inr (VDouble (Fin 0))
   \<and> setArrayElement exampleArray ''a'' 2 (VString ''v'')
       = Inr (exampleArray\<lparr>currentRow := [(''y'', VString ''v'')]\<rparr>)
   \<and> getArrayElement exampleArray ''a'' 3
       = Inl (RuntimeError ''Array index out of bounds for array: a'')
   \<and> getArrayElement exampleArray ''a'' 0
       = Inl (RuntimeError ''Array index out of bounds for array: a'')"
proof -
  have e: "executeArray ''a'' 2 [''x'', ''y''] initial = (None, exampleArray)"
    by (simp add: executeArray_def exampleArray_def)
  have c: "currentRow exampleArray = []"
    by (simp add: initial_def exampleArray_def)
  have t1: "getArrayElement exampleArray ''a'' 2 = Inr (VDouble (Fin 0))"
    using array_access_one_based[OF e, of 2 "VString ''v''"]
    by (simp add: c columns_find_def)
  have t2: "setArrayElement exampleArray ''a'' 2 (VString ''v'')
              = Inr (exampleArray\<lparr>currentRow := [(''y'', VString ''v'')]\<rparr>)"
    using array_access_one_based[OF e, of 2 "VString ''v''"]
    by (simp add: c columns_assign_def)
  have t3: "getArrayElement exampleArray ''a'' 3
              = Inl (RuntimeError ''Array index out of bounds for array: a'')"
    using array_access_one_based[OF e, of 3 "VString ''v''"]
    by simp
  have t4: "getArrayElement exampleArray ''a'' 0
              = Inl (RuntimeError ''Array index out of bounds for array: a'')"
    using array_access_one_based[OF e, of 0 "VString ''v''"]
    by simp
  from t1 t2 t3 t4 show ?thesis by (simp only: simp_thms)
qed

subsection \<open>Looking datasets up\<close>

text \<open>Looking a dataset up creates it when it is missing and changes no other dataset.\<close>

lemma getOrCreateDataset_frame:
  assumes "getOrCreateDataset l d st = (p, st')"
  shows "byVariables st' = byVariables st" and "currentDataSet st' = currentDataSet st"
    and "rowsOf st' q = rowsOf st q"
    and "dataSets st q = Some ds \<Longrightarrow> dataSets st' q = Some ds"
  using assms
  by (auto simp: getOrCreateDataset_def rowsOf_def Let_def split: option.splits if_splits)

lemma getOrCreateAll_frame:
  assumes "getOrCreateAll ds st = (ps, st')"
  shows "byVariables st' = byVariables st \<and> currentDataSet st' = currentDataSet st
     \<and> (\<forall>q. rowsOf st' q = rowsOf st q)
     \<and> (\<forall>q d. dataSets st q = Some d \<longrightarrow> dataSets st' q = Some d)"
  using assms
proof (induction ds arbitrary: st ps st')
  case Nil
  then show ?case by simp
next
  case (Cons d ds)
  obtain p st1 where g: "getOrCreateDataset d d st = (p, st1)"
    by (cases "getOrCreateDataset d d st")
  obtain ps' st2 where a: "getOrCreateAll ds st1 = (ps', st2)"
    by (cases "getOrCreateAll ds st1")
  from Cons.prems g a have "st' = st2" by simp
  with Cons.IH[OF a] getOrCreateDataset_frame[OF g]
  show ?case by auto
qed

subsection \<open>MERGE: which value a shared variable takes\<close>











lemma matchedFrom_Nil [simp]: "matchedFrom inputs []"
  by (induction inputs) simp_all














subsection \<open>MERGE without BY\<close>

text \<open>
  C10. When the interpreter's list of BY variables is empty, \<^verbatim>\<open>executeMerge\<close> throws
  "MERGE statement requires a preceding BY statement." whatever the fuel, that is before
  its loop reads a row. In the state it leaves, the current (output) dataset is the same,
  every dataset that existed is unchanged, and no dataset has other rows than before.
\<close>

theorem executeMerge_without_by:
  assumes "byVariables st = []"
  shows "\<exists>st'. executeMerge fuel pf datasets st =
             Some (Some (RuntimeError ''MERGE statement requires a preceding BY statement.''), st')
           \<and> currentDataSet st' = currentDataSet st
           \<and> (\<forall>q. rowsOf st' q = rowsOf st q)
           \<and> (\<forall>q d. dataSets st q = Some d \<longrightarrow> dataSets st' q = Some d)"
proof -
  obtain ps st1 where a: "getOrCreateAll datasets st = (ps, st1)"
    by (cases "getOrCreateAll datasets st")
  note f = getOrCreateAll_frame[OF a]
  from f assms have "byVariables st1 = []" by simp
  then have "executeMerge fuel pf datasets st =
             Some (Some (RuntimeError ''MERGE statement requires a preceding BY statement.''), st1)"
    by (simp add: executeMerge_def a)
  with f show ?thesis by blast
qed

text \<open>Without BY, the output keeps its one row and the unsorted input stays unsorted.\<close>

theorem executeMerge_without_by_witness:
  "\<exists>st'. executeMerge 0 examplePlatform [''ds1'', ''ds2''] mergeExampleNoBy =
             Some (Some (RuntimeError ''MERGE statement requires a preceding BY statement.''), st')
         \<and> rowsOf st' ''WORK.out'' = [[(''id'', VDouble (Fin 7))]]
         \<and> rowsOf st' ''ds1.ds1'' = [[(''id'', VDouble (Fin 2)), (''v'', VDouble (Fin 11))],
                                       [(''id'', VDouble (Fin 1)), (''v'', VDouble (Fin 10))]]"
proof -
  have b: "byVariables mergeExampleNoBy = []"
    by (simp add: mergeExampleNoBy_def initial_def)
  have r1: "rowsOf mergeExampleNoBy ''WORK.out'' = [[(''id'', VDouble (Fin 7))]]"
    by (simp add: mergeExampleNoBy_def rowsOf_def)
  have r2: "rowsOf mergeExampleNoBy ''ds1.ds1'' = [[(''id'', VDouble (Fin 2)), (''v'', VDouble (Fin 11))],
                                       [(''id'', VDouble (Fin 1)), (''v'', VDouble (Fin 10))]]"
    by (simp add: mergeExampleNoBy_def rowsOf_def)
  from executeMerge_without_by[OF b, of 0 examplePlatform "[''ds1'', ''ds2'']"]
  obtain st' where "executeMerge 0 examplePlatform [''ds1'', ''ds2''] mergeExampleNoBy =
             Some (Some (RuntimeError ''MERGE statement requires a preceding BY statement.''), st')"
    and "\<forall>q. rowsOf st' q = rowsOf mergeExampleNoBy q" by blast
  with r1 r2 show ?thesis by auto
qed

subsection \<open>Runtime errors at the top level of a program\<close>

lemma executeProgram_never_runtime_error:
  "executeProgram fuel pf stmts st \<noteq> Some (Some (RuntimeError m), s)"
proof (induction stmts arbitrary: st)
  case Nil
  then show ?case by simp
next
  case (Cons stmt stmts)
  show ?case
  proof (cases "execute fuel pf stmt st")
    case None
    then show ?thesis by simp
  next
    case (Some r)
    obtain e st' where r: "r = (e, st')" by (cases r)
    show ?thesis
    proof (cases e)
      case None
      with Some r Cons.IH show ?thesis by simp
    next
      case (Some x)
      with \<open>execute fuel pf stmt st = Some r\<close> r Cons.IH show ?thesis
        by (cases x) simp_all
    qed
  qed
qed

text \<open>
  An exception that is not a \<^verbatim>\<open>runtime_error\<close> (a \<^verbatim>\<open>bad_variant_access\<close> from a function
  applied to a value of the wrong kind, say) is not caught: it ends \<^verbatim>\<open>executeProgram\<close>,
  and the statements that follow are not executed.
\<close>

lemma executeProgram_other_exception:
  assumes "execute fuel pf stmt st = Some (Some e, st')" and "\<forall>msg. e \<noteq> RuntimeError msg"
  shows "executeProgram fuel pf (stmt # stmts) st = Some (Some e, st')"
  using assms by (cases e) simp_all

lemma foldl_atStepBoundary_None: "foldl (atStepBoundary fuel pf) None stmts = None"
  by (induction stmts) (simp_all add: atStepBoundary_def)

lemma atStepBoundary_Some:
  "atStepBoundary fuel pf (Some st) stmt =
     (case execute fuel pf stmt st of
        Some (None, st') \<Rightarrow> Some st'
      | Some (Some (RuntimeError msg), st') \<Rightarrow>
          Some (logged [logError ''Execution error: {}'' [S msg]] st')
      | _ \<Rightarrow> None)"
  by (simp add: atStepBoundary_def)

lemma executeProgram_fold:
  "executeProgram fuel pf stmts st = Some (None, st') \<longleftrightarrow>
     foldl (atStepBoundary fuel pf) (Some st) stmts = Some st'"
proof (induction stmts arbitrary: st)
  case Nil
  then show ?case by auto
next
  case (Cons stmt stmts)
  show ?case
  proof (cases "execute fuel pf stmt st")
    case None
    then show ?thesis by (simp add: atStepBoundary_Some foldl_atStepBoundary_None)
  next
    case (Some r)
    obtain e s where r: "r = (e, s)" by (cases r)
    show ?thesis
    proof (cases e)
      case None
      with Some r Cons.IH[of s] show ?thesis by (simp add: atStepBoundary_Some)
    next
      case (Some x)
      note ex = \<open>execute fuel pf stmt st = Some r\<close>
      show ?thesis
      proof (cases x)
        case (RuntimeError msg)
        with ex r Some Cons.IH[of "logged [logError ''Execution error: {}'' [S msg]] s"]
        show ?thesis by (simp add: atStepBoundary_Some)
      next
        case BadVariantAccess
        with ex r Some show ?thesis by (simp add: atStepBoundary_Some foldl_atStepBoundary_None)
      next
        case UndefinedBehaviour
        with ex r Some show ?thesis by (simp add: atStepBoundary_Some foldl_atStepBoundary_None)
      qed
    qed
  qed
qed

text \<open>
  C7, as the code has it. \<^verbatim>\<open>executeProgram\<close> ends normally in a state \<open>st'\<close> exactly when
  the run that catches at every statement's boundary gets through the whole program and
  ends in \<open>st'\<close>: as long as each statement in its turn completes or throws a
  \<^verbatim>\<open>runtime_error\<close>, every statement of the program is executed, in order, each in the
  state that its predecessor left; after a \<^verbatim>\<open>runtime_error\<close> that state has the line
  "Execution error: ..." with the error's message added to the log, and the next statement
  is executed all the same. A \<^verbatim>\<open>runtime_error\<close> never leaves \<^verbatim>\<open>executeProgram\<close>.
\<close>

theorem executeProgram_resumes:
  "(executeProgram fuel pf stmts st = Some (None, st') \<longleftrightarrow>
      foldl (atStepBoundary fuel pf) (Some st) stmts = Some st')
   \<and> executeProgram fuel pf stmts st \<noteq> Some (Some (RuntimeError m), s)"
  by (simp add: executeProgram_fold executeProgram_never_runtime_error)

text \<open>
  \<^verbatim>\<open>title 'first'; proc means ...; end; proc means ...; title 'last';\<close>: three statements in
  a row throw, each error is logged, and the last title is set.
\<close>

theorem executeProgram_resumes_witness:
  "runOf (executeProgram 1 examplePlatform failingProgram initial)
     = Some (None, ''last'',
         [logError ''Execution error: {}'' [S ''PROC MEANS should be handled as ProcMeansNode''],
          logError ''Execution error: {}'' [S ''END statement encountered without a corresponding DO loop.''],
          logError ''Execution error: {}'' [S ''PROC MEANS should be handled as ProcMeansNode'']])"
proof -
  have "map_option (\<lambda>st. (title st, logLogger st))
          (foldl (atStepBoundary 1 examplePlatform) (Some initial) failingProgram)
     = Some (''last'',
         [logError ''Execution error: {}'' [S ''PROC MEANS should be handled as ProcMeansNode''],
          logError ''Execution error: {}'' [S ''END statement encountered without a corresponding DO loop.''],
          logError ''Execution error: {}'' [S ''PROC MEANS should be handled as ProcMeansNode'']])"
    by code_simp
  then obtain st' where
    f: "foldl (atStepBoundary 1 examplePlatform) (Some initial) failingProgram = Some st'"
    and t: "title st' = ''last''"
      "logLogger st' =
         [logError ''Execution error: {}'' [S ''PROC MEANS should be handled as ProcMeansNode''],
          logError ''Execution error: {}'' [S ''END statement encountered without a corresponding DO loop.''],
          logError ''Execution error: {}'' [S ''PROC MEANS should be handled as ProcMeansNode'']]"
    by auto
  from executeProgram_resumes[of 1 examplePlatform failingProgram initial st'] f
  have "executeProgram 1 examplePlatform failingProgram initial = Some (None, st')"
    by simp
  then show ?thesis by (simp add: runOf_def t)
qed

text \<open>
  \<^verbatim>\<open>data out; set in; y = upcase(1); run; title 'last';\<close>: \<^verbatim>\<open>std::get\<close> throws
  \<^verbatim>\<open>bad_variant_access\<close> in the DATA step. It is not caught: the run ends with that
  exception, nothing is logged, and the TITLE statement is not executed.
\<close>

theorem executeProgram_type_error_counterexample:
  "runOf (executeProgram 2 examplePlatform typeErrorProgram dataStepExample)
     = Some (Some BadVariantAccess, [], [])"
  by code_simp

subsection \<open>How long a DO loop runs\<close>

lemma logged_Nil [simp]: "logged [] st = st"
  by (simp add: logged_def)

text \<open>
  The conditional loop. The iteration count of the loop on top of the stack is pushed as
  0 and never written again, so the test against \<^verbatim>\<open>MAX_ITERATIONS\<close> fails in every round.
  With a condition that lets the loop go on in every state, and a body that completes
  and leaves the loop stack as it was, the loop uses up whatever fuel it is given.
\<close>

lemma doLoopWhile_never_ends:
  assumes c: "\<And>s. evaluate pf s c = (Inr v, [])"
    and met: "if w then conditionHolds v else \<not> conditionHolds v"
    and b: "\<And>s. ex body s = None \<or> (\<exists>s'. ex body s = Some (None, s') \<and> loopStack s' = loopStack s)"
    and l: "loopStack st = ((Some c, w, body), 0) # rest"
  shows "doLoopWhile fuel ex pf st = None"
  using l
proof (induction fuel arbitrary: st)
  case 0
  then show ?case by simp
next
  case (Suc fuel)
  from b[of st] show ?case
  proof
    assume "ex body st = None"
    with Suc.prems met show ?thesis
      by (simp add: MAX_ITERATIONS_def c)
  next
    assume "\<exists>s'. ex body st = Some (None, s') \<and> loopStack s' = loopStack st"
    then obtain s' where s: "ex body st = Some (None, s')" "loopStack s' = loopStack st" by blast
    with Suc.prems have "loopStack s' = ((Some c, w, body), 0) # rest" by simp
    from Suc.IH[OF this] s Suc.prems met show ?thesis
      by (simp add: MAX_ITERATIONS_def c)
  qed
qed

lemma execute_Title:
  "execute fuel pf (TitleNode t) s = None \<or>
   (\<exists>s'. execute fuel pf (TitleNode t) s = Some (None, s') \<and> loopStack s' = loopStack s)"
  by (cases fuel) (simp_all add: executeWith_def executeTitle_def lst_def)

lemma executeDoLoop_never_ends:
  assumes "if w then conditionHolds (VDouble d) else \<not> conditionHolds (VDouble d)"
  shows "execute fuel pf (DoLoopNode (Some (NumberNode d)) w (TitleNode t)) st = None"
proof (cases fuel)
  case 0
  then show ?thesis by simp
next
  case (Suc f)
  have "doLoopWhile f (execute f pf) pf
          (st\<lparr>loopStack := ((Some (NumberNode d), w, TitleNode t), 0) # loopStack st\<rparr>) = None"
    by (rule doLoopWhile_never_ends[where rest = "loopStack st" and v = "VDouble d"])
       (simp_all add: ret_def execute_Title assms)
  then show ?thesis by (simp add: Suc executeWith_def executeDoLoop_def)
qed

text \<open>
  The iterative loop has no count of its iterations at all. From a whole number \<open>n\<close> to
  \<open>n + k - 1\<close> by the default increment it runs its body \<open>k\<close> times (shown with a RETAIN
  statement as the body) and completes. The loop variable stays a whole number of at most
  \<open>2 ^ 53\<close>, up to where a \<^verbatim>\<open>double\<close> holds every whole number and adding 1 is exact.
\<close>

lemma retain_body:
  "doStatements rec pf [RetainNode vars] s = Some (None, s\<lparr>retainVars := retainVars s @ vars\<rparr>)"
  by (simp add: doStatement_def executeRetain_def)

lemma subscript_found:
  "columns_find row v = Some x \<Longrightarrow> columns_subscript v row = (x, row)"
  by (simp add: columns_subscript_def)

lemma doWhile_counts:
  assumes "columns_find (currentRow st) v = Some (VDouble (Fin (real n)))"
    and "real (n + k) > e" and "\<forall>j < k. real (n + j) \<le> e" and "k < fuel"
    and "n + k \<le> 2 ^ 53"
    and body: "\<And>s. body s = Some (None, s\<lparr>retainVars := retainVars s @ vars\<rparr>)"
  shows "doWhile fuel body pf True v (Fin e) (Fin 1) st
           = Some (None, st\<lparr>currentRow := columns_assign v (VDouble (Fin (real (n + k)))) (currentRow st),
                             retainVars := retainVars st @ concat (replicate k vars)\<rparr>)"
  using assms
proof (induction k arbitrary: st n fuel)
  case 0
  then obtain f where f: "fuel = Suc f" by (cases fuel) auto
  from 0 have x: "\<not> real n \<le> e" by simp
  have t: "columns_assign v (VDouble (Fin (real n))) (currentRow st) = currentRow st"
    using 0(1) by (simp add: columns_assign_def columns_find_def update_triv)
  show ?case
    using x by (simp add: f subscript_found[OF 0(1)] dle_def t)
next
  case (Suc k)
  then obtain f where f: "fuel = Suc f" and kf: "k < f" by (cases fuel) auto
  from Suc.prems(3) have "real (n + 0) \<le> e" by blast
  then have x: "real n \<le> e" by simp
  let ?st2 = "st\<lparr>retainVars := retainVars st @ vars\<rparr>"
  let ?st3 = "?st2\<lparr>currentRow := columns_assign v (VDouble (Fin (real (Suc n)))) (currentRow st)\<rparr>"
  have c2: "columns_find (currentRow ?st2) v = Some (VDouble (Fin (real n)))"
    using Suc.prems(1) by simp
  have step: "doWhile fuel body pf True v (Fin e) (Fin 1) st
               = doWhile f body pf True v (Fin e) (Fin 1) ?st3"
    using x
    by (simp add: f subscript_found[OF Suc.prems(1)] subscript_found[OF c2] dle_def Suc.prems(6) dadd_def
          add.commute)
  have c3: "columns_find (currentRow ?st3) v = Some (VDouble (Fin (real (Suc n))))"
    by (simp add: columns_find_def columns_assign_def update_conv')
  have g: "real (Suc n + k) > e" using Suc.prems(2) by simp
  have a: "\<forall>j < k. real (Suc n + j) \<le> e"
  proof (intro allI impI)
    fix j assume "j < k"
    then have "Suc j < Suc k" by simp
    with Suc.prems(3) have "real (n + Suc j) \<le> e" by blast
    then show "real (Suc n + j) \<le> e" by simp
  qed
  have b: "Suc n + k \<le> 2 ^ 53" using Suc.prems(5) by simp
  have r: "Suc n + k = n + Suc k" by simp
  show ?case
    unfolding step
    by (subst Suc.IH[OF c3 g a kf b Suc.prems(6)]) (simp add: columns_assign_def r del: add_Suc add_Suc_right)
qed

lemma executeDo_counts:
  assumes "k < fuel" and "0 < k" and "n + k \<le> 2 ^ 53"
  shows "executeDo (Suc fuel) pf v (NumberNode (Fin (real n))) (NumberNode (Fin (real (n + k - 1)))) None
            [RetainNode vars] st
           = Some (None, st\<lparr>currentRow := columns_assign v (VDouble (Fin (real (n + k)))) (currentRow st),
                             retainVars := retainVars st @ concat (replicate k vars)\<rparr>)"
proof -
  let ?st4 = "st\<lparr>currentRow := columns_assign v (VDouble (Fin (real n))) (currentRow st)\<rparr>"
  have c: "columns_find (currentRow ?st4) v = Some (VDouble (Fin (real n)))"
    by (simp add: columns_find_def columns_assign_def update_conv')
  have g: "real (n + k) > real (n + k - 1)" using assms(2) by simp
  have b: "\<forall>j < k. real (n + j) \<le> real (n + k - 1)"
    by auto
  have e: "executeDo (Suc fuel) pf v (NumberNode (Fin (real n))) (NumberNode (Fin (real (n + k - 1)))) None
            [RetainNode vars] st
          = doWhile fuel (doStatements (executeDo fuel pf) pf [RetainNode vars]) pf True v
              (Fin (real (n + k - 1))) (Fin 1) ?st4"
    by (simp add: executeDoWith_def ret_def dgt_def)
  show ?thesis
    unfolding e
    by (subst doWhile_counts[OF c g b assms(1) assms(3) retain_body]) (simp add: columns_assign_def)
qed

lemma concat_replicate_single: "concat (replicate k [x]) = replicate k x"
  by (induction k) simp_all

lemma countingLoop_runs:
  "executeDo 1000003 examplePlatform ''i'' (NumberNode (Fin 1)) (NumberNode (Fin 1000001)) None
      [RetainNode [''x'']] st
     = Some (None, st\<lparr>currentRow := columns_assign ''i'' (VDouble (Fin 1000002)) (currentRow st),
                       retainVars := retainVars st @ replicate 1000001 ''x''\<rparr>)"
proof -
  have f: "(1000003::nat) = Suc 1000002" by simp
  have k: "(1000001::nat) < 1000002" "0 < (1000001::nat)" "(1::nat) + 1000001 \<le> 2 ^ 53" by simp_all
  have e1: "real (1::nat) = 1" by simp
  have e2: "real ((1::nat) + 1000001 - 1) = 1000001" by simp
  have e3: "real ((1::nat) + 1000001) = 1000002" by simp
  from executeDo_counts[OF k, of examplePlatform "''i''" "[''x'']" st]
  show ?thesis
    unfolding f e1 e2 e3 concat_replicate_single .
qed

text \<open>In a DATA step the loop runs once for every row of the input, each time to its end.\<close>

lemma countingLoop_rows:
  "\<exists>st'. dataStepRows 1000003 examplePlatform [countingLoop] inP outP False rs st = Some (None, st')
         \<and> retainVars st' = retainVars st @ replicate (length rs * 1000001) ''x''"
proof (induction rs arbitrary: st)
  case Nil
  then show ?case by simp
next
  case (Cons row rs)
  let ?st3 = "st\<lparr>currentRow := columns_assign ''i'' (VDouble (Fin 1000002)) row,
                  retainVars := retainVars st @ replicate 1000001 ''x''\<rparr>"
  have s: "dataStepStatement 1000003 examplePlatform countingLoop
             \<lparr>shouldOutput = False, hasDrop = False, hasKeep = False, hasRetain = False\<rparr>
             (st\<lparr>currentRow := row\<rparr>)
           = Some (None, \<lparr>shouldOutput = False, hasDrop = False, hasKeep = False, hasRetain = False\<rparr>, ?st3)"
    by (simp add: dataStepStatement_def countingLoop_def countingLoop_runs)
  have r: "dataStepRows 1000003 examplePlatform [countingLoop] inP outP False (row # rs) st
           = dataStepRows 1000003 examplePlatform [countingLoop] inP outP False rs ?st3"
    by (simp add: s applyDropKeep_def)
  from Cons[of ?st3] obtain st' where
    "dataStepRows 1000003 examplePlatform [countingLoop] inP outP False rs ?st3 = Some (None, st')"
    "retainVars st' = retainVars ?st3 @ replicate (length rs * 1000001) ''x''" by blast
  then show ?case
    unfolding r by (simp add: replicate_add[symmetric])
qed

lemma countingLoop_step:
  "iterationsOf (execute 1000004 examplePlatform (DataStepNode ''out'' ''in'' [countingLoop]) dataStepExample)
     = Some (None, 2000002)"
proof -
  have f: "(1000004::nat) = Suc 1000003" by simp
  have s: "splitDatasetName ''out'' = ([], ''out'')" "splitDatasetName ''in'' = ([], ''in'')"
    by (simp_all add: splitDatasetName_def)
  have g1: "getOrCreateDataset [] ''in'' dataStepExample = (''WORK.in'', dataStepExample)"
    by (simp add: getOrCreateDataset_def resolveLibref_def dataStepExample_def Let_def)
  define st2 where "st2 = snd (getOrCreateDataset [] ''out'' dataStepExample)"
  have g2: "getOrCreateDataset [] ''out'' dataStepExample = (''WORK.out'', st2)"
    by (simp add: st2_def getOrCreateDataset_def resolveLibref_def dataStepExample_def initial_def Let_def)
  define st3 where "st3 = (case dataSets st2 ''WORK.out'' of
                   Some ds \<Rightarrow> st2\<lparr>dataSets := (dataSets st2)(''WORK.out'' \<mapsto> ds\<lparr>name := ''out''\<rparr>)\<rparr>
                 | None \<Rightarrow> st2)"
  have v: "retainVars st3 = []" "length (rowsOf st3 ''WORK.in'') = 2"
    by (simp_all add: st3_def st2_def getOrCreateDataset_def resolveLibref_def dataStepExample_def
          initial_def rowsOf_def Let_def)
  have m: "findMerge [countingLoop] = None" by (simp add: countingLoop_def)
  have e: "execute 1000004 examplePlatform (DataStepNode ''out'' ''in'' [countingLoop]) dataStepExample
           = dataStepRows 1000003 examplePlatform [countingLoop] ''WORK.in'' ''WORK.out'' False
               (rowsOf st3 ''WORK.in'') st3"
    by (subst f, subst execute.simps)
       (simp add: executeWith_def executeDataStep_def s g1 g2 m st3_def[symmetric])
  from countingLoop_rows[of "''WORK.in''" "''WORK.out''" "rowsOf st3 ''WORK.in''" st3]
  show ?thesis
    unfolding e by (auto simp add: iterationsOf_def v)
qed

text \<open>
  C3, on the code. No DO loop is stopped by a cap on its iterations.
  \<^verbatim>\<open>do while(1); title 't'; end;\<close> and \<^verbatim>\<open>do until(0); title 't'; end;\<close> never return:
  whatever the fuel, the platform and the state, the run is out of fuel before the loop
  has ended, and no exception has been raised on the way.
  In the DATA step \<^verbatim>\<open>data out; set in; do i = 1 to 1000001; retain x; end; run;\<close> over the two
  rows of \<^verbatim>\<open>WORK.in\<close> the body of the iterative loop is executed 1,000,001 times for each
  row, 2,000,002 times in all, and the step completes without an exception.
\<close>

theorem do_loops_are_not_capped:
  "execute fuel pf (DoLoopNode (Some (NumberNode (Fin 1))) True (TitleNode t)) st = None
   \<and> execute fuel pf (DoLoopNode (Some (NumberNode (Fin 0))) False (TitleNode t)) st = None
   \<and> iterationsOf (execute 1000004 examplePlatform (DataStepNode ''out'' ''in'' [countingLoop])
                      dataStepExample)
       = Some (None, 2000002)"
proof (intro conjI)
  show "execute fuel pf (DoLoopNode (Some (NumberNode (Fin 1))) True (TitleNode t)) st = None"
    by (rule executeDoLoop_never_ends) (simp add: conditionHolds_def dne_def deq_def)
  show "execute fuel pf (DoLoopNode (Some (NumberNode (Fin 0))) False (TitleNode t)) st = None"
    by (rule executeDoLoop_never_ends) (simp add: conditionHolds_def dne_def deq_def)
  show "iterationsOf (execute 1000004 examplePlatform (DataStepNode ''out'' ''in'' [countingLoop])
                      dataStepExample)
       = Some (None, 2000002)"
    by (rule countingLoop_step)
qed

subsection \<open>What PROC MEANS writes\<close>

lemma meansVar_other:
  "v \<noteq> var \<Longrightarrow> fst (meansVar row acc v) var = fst acc var \<and> snd (meansVar row acc v) var = snd acc var"
  by (simp add: meansVar_def split: option.splits Value.splits)

lemma meansVar_same:
  "fst (meansVar row acc var) var =
           (case columns_find row var of Some (VDouble d) \<Rightarrow> dadd (fst acc var) d | _ \<Rightarrow> fst acc var)
   \<and> snd (meansVar row acc var) var =
           (case columns_find row var of Some (VDouble d) \<Rightarrow> snd acc var + 1 | _ \<Rightarrow> snd acc var)"
  by (simp add: meansVar_def split: option.splits Value.splits)

lemma meansRow_other:
  "var \<notin> set vs \<Longrightarrow>
     fst (foldl (meansVar row) acc vs) var = fst acc var
   \<and> snd (foldl (meansVar row) acc vs) var = snd acc var"
proof (induction vs arbitrary: acc)
  case Nil
  then show ?case by simp
next
  case (Cons v vs)
  then have "v \<noteq> var" and n: "var \<notin> set vs" by auto
  from meansVar_other[OF this(1), of row acc] Cons.IH[OF n, of "meansVar row acc v"]
  show ?case by simp
qed

lemma meansRow_one:
  assumes "distinct vs" and "var \<in> set vs"
  shows "fst (meansRow vs acc row) var =
           (case columns_find row var of Some (VDouble d) \<Rightarrow> dadd (fst acc var) d | _ \<Rightarrow> fst acc var)
       \<and> snd (meansRow vs acc row) var =
           (case columns_find row var of Some (VDouble d) \<Rightarrow> snd acc var + 1 | _ \<Rightarrow> snd acc var)"
  using assms unfolding meansRow_def
proof (induction vs arbitrary: acc)
  case Nil
  then show ?case by simp
next
  case (Cons v vs)
  show ?case
  proof (cases "v = var")
    case True
    with Cons.prems have "var \<notin> set vs" by simp
    from meansRow_other[OF this, of row "meansVar row acc var"] meansVar_same[of row acc var] True
    show ?thesis by (simp split: option.splits Value.splits)
  next
    case False
    with Cons.prems have "distinct vs" "var \<in> set vs" by simp_all
    from Cons.IH[OF this, of "meansVar row acc v"] meansVar_other[OF False, of row acc]
    show ?thesis by (simp split: option.splits Value.splits)
  qed
qed

lemma meansRows_all:
  assumes "distinct vs" and "var \<in> set vs"
  shows "fst (foldl (meansRow vs) acc rs) var = foldl dadd (fst acc var) (numericValues var rs)
       \<and> snd (foldl (meansRow vs) acc rs) var = snd acc var + int (length (numericValues var rs))"
proof (induction rs arbitrary: acc)
  case Nil
  then show ?case by (simp add: numericValues_def)
next
  case (Cons row rs)
  note one = meansRow_one[OF assms, of acc row]
  show ?case
    using Cons.IH[of "meansRow vs acc row"] one
    by (simp add: numericValues_def split: option.splits Value.splits)
qed

lemma meanLine_spec:
  assumes "distinct vs" and "var \<in> set vs"
  shows "meanLine (foldl (meansRow vs) (\<lambda>v. Fin 0, \<lambda>v. 0) rs) var =
     (if numericValues var rs = []
      then logInfo (''{}'' @ [CHR 0x09] @ ''.'') [S var]
      else logInfo (''{}'' @ [CHR 0x09] @ ''{:.2f}'') [S var, D (meanOf (numericValues var rs))])"
  using meansRows_all[OF assms, of "(\<lambda>v. Fin 0, \<lambda>v. 0)" rs]
  by (simp add: meanLine_def meanOf_def)

text \<open>
  What \<^verbatim>\<open>executeProcMeans\<close> would write if it were called, for a VAR list without
  repetition: a heading with the name of the dataset (which is created empty when the
  environment has none of that name in \<^verbatim>\<open>WORK\<close>), the title if one is set, the line
  \<^verbatim>\<open>Variable<TAB>Mean\<close>, and for each listed variable one line with the mean of the numbers
  that the rows hold for it, or with a dot when no row holds a number for it. It has no
  count, minimum, maximum or standard deviation, and for an empty VAR list no line for
  any variable.
\<close>

lemma executeProcMeans_listing:
  assumes "distinct varNames"
  shows "executeProcMeans datasetName varNames st =
     (None, (snd (getOrCreateDataset [] datasetName st))\<lparr>lstLogger := lstLogger st
           @ [logInfo ''PROC MEANS Results for Dataset '{}':''
                [S (case dataSets st (''WORK.'' @ datasetName) of
                      Some ds \<Rightarrow> name ds | None \<Rightarrow> ''WORK.'' @ datasetName)]]
           @ (if title st \<noteq> [] then [logInfo ''Title: {}'' [S (title st)]] else [])
           @ [logInfo (''Variable'' @ [CHR 0x09] @ ''Mean'') []]
           @ meansLines varNames (rowsOf st (''WORK.'' @ datasetName))\<rparr>)"
proof -
  have m: "\<And>rs. map (meanLine (foldl (meansRow varNames) (\<lambda>v. Fin 0, \<lambda>v. 0) rs)) varNames
             = meansLines varNames rs"
    unfolding meansLines_def
    by (rule map_cong[OF refl]) (simp add: meanLine_spec[OF assms(1)])
  show ?thesis
  proof (cases "dataSets st (''WORK.'' @ datasetName)")
    case None
    then have g: "getOrCreateDataset [] datasetName st =
        (''WORK.'' @ datasetName,
         st\<lparr>dataSets := (dataSets st)(''WORK.'' @ datasetName \<mapsto>
               \<lparr>name = ''WORK.'' @ datasetName, rows = [], columnOrder = []\<rparr>)\<rparr>)"
      by (simp add: getOrCreateDataset_def resolveLibref_def Let_def)
    show ?thesis
      unfolding executeProcMeans_def g
      using None m[of "[]"] by (simp add: lst_def titleLine_def Let_def rowsOf_def)
  next
    case (Some ds)
    then have g: "getOrCreateDataset [] datasetName st = (''WORK.'' @ datasetName, st)"
      by (simp add: getOrCreateDataset_def resolveLibref_def Let_def)
    show ?thesis
      unfolding executeProcMeans_def g
      using Some m[of "rows ds"] by (simp add: lst_def titleLine_def Let_def rowsOf_def)
  qed
qed

text \<open>On the dataset with \<^verbatim>\<open>x\<close> = 1, 2, 6 and \<^verbatim>\<open>var x s;\<close>: the mean 3 of \<^verbatim>\<open>x\<close> and a dot for the
  character column.\<close>

lemma executeProcMeans_example:
  "lstLogger (snd (executeProcMeans ''a'' [''x'', ''s''] meansExample))
     = [logInfo ''PROC MEANS Results for Dataset '{}':'' [S ''WORK.a''],
        logInfo (''Variable'' @ [CHR 0x09] @ ''Mean'') [],
        logInfo (''{}'' @ [CHR 0x09] @ ''{:.2f}'') [S ''x'', D (Fin 3)],
        logInfo (''{}'' @ [CHR 0x09] @ ''.'') [S ''s'']]"
  by code_simp

text \<open>
  C6, on the code. A PROC MEANS step writes no statistic at all. \<^verbatim>\<open>execute\<close> has no case
  for a \<^verbatim>\<open>ProcMeansNode\<close> and hands the node to \<^verbatim>\<open>executeProc\<close>, which throws
  "PROC MEANS should be handled as ProcMeansNode", in every state and for every dataset
  and VAR list; a plain \<^verbatim>\<open>ProcNode\<close> named \<^verbatim>\<open>means\<close> ends the same way.
  \<^verbatim>\<open>executeProcMeans\<close> is never reached. For \<^verbatim>\<open>proc means data=a; var x; run;\<close> on the
  dataset with \<^verbatim>\<open>x\<close> = 1, 2, 6 the run of the program logs the error and the listing stays
  empty.
\<close>

theorem procMeans_step_throws:
  "execute (Suc fuel) pf (ProcMeansNode ''means'' datasetName varNames) st
     = Some (Some (RuntimeError ''PROC MEANS should be handled as ProcMeansNode''), st)
   \<and> execute (Suc fuel) pf (ProcNode ''means'' datasetName) st
     = Some (Some (RuntimeError ''PROC MEANS should be handled as ProcMeansNode''), st)
   \<and> listingOf (executeProgram 1 examplePlatform [ProcMeansNode ''means'' ''a'' [''x'']] meansExample)
     = Some (None, [logError ''Execution error: {}'' [S ''PROC MEANS should be handled as ProcMeansNode'']], [])"
proof (intro conjI)
  show "execute (Suc fuel) pf (ProcMeansNode ''means'' datasetName varNames) st
     = Some (Some (RuntimeError ''PROC MEANS should be handled as ProcMeansNode''), st)"
    by (simp add: executeWith_def executeProc_def)
  show "execute (Suc fuel) pf (ProcNode ''means'' datasetName) st
     = Some (Some (RuntimeError ''PROC MEANS should be handled as ProcMeansNode''), st)"
    by (simp add: executeWith_def executeProc_def)
  show "listingOf (executeProgram 1 examplePlatform [ProcMeansNode ''means'' ''a'' [''x'']] meansExample)
     = Some (None, [logError ''Execution error: {}'' [S ''PROC MEANS should be handled as ProcMeansNode'']], [])"
    by code_simp
qed

subsection \<open>Which iterations of a DATA step emit a row\<close>

text \<open>
  C1, on the input \<^verbatim>\<open>WORK.in\<close> of two rows. \<^verbatim>\<open>data out; set in; run;\<close> and the step with
  one assignment and no OUTPUT leave \<^verbatim>\<open>WORK.out\<close> empty: no implicit output takes
  place. With one OUTPUT statement, and just the same with two, every iteration emits one
  row, at its end. An OUTPUT inside IF-THEN emits nothing.
\<close>

theorem dataStep_output_flag:
  "outputOf (executeDataStep 1 examplePlatform ''out'' ''in'' [] dataStepExample) = Some (None, [])
   \<and> outputOf (executeDataStep 1 examplePlatform ''out'' ''in''
                  [AssignmentNode ''y'' (NumberNode (Fin 1))] dataStepExample) = Some (None, [])
   \<and> outputOf (executeDataStep 1 examplePlatform ''out'' ''in'' [OutputNode] dataStepExample)
       = Some (None, [[(''x'', VDouble (Fin 1))], [(''x'', VDouble (Fin 2))]])
   \<and> outputOf (executeDataStep 1 examplePlatform ''out'' ''in'' [OutputNode, OutputNode] dataStepExample)
       = Some (None, [[(''x'', VDouble (Fin 1))], [(''x'', VDouble (Fin 2))]])
   \<and> outputOf (executeDataStep 1 examplePlatform ''out'' ''in''
                  [IfThenNode (NumberNode (Fin 1)) [OutputNode]] dataStepExample) = Some (None, [])"
  by code_simp

end
